theory Spec2Isabelle
  imports Main "HOL-Library.AList" "HOL-Library.Sublist"
begin

section \<open>JavaScript values\<close>

text \<open>
  The client handles remote payloads as untyped values (\<^verbatim>\<open>any\<close>).  They are modelled by
  the JSON value type below, extended with \<^verbatim>\<open>undefined\<close>.  Numbers are integers (the
  integers a double represents exactly); an object is an association list in insertion
  order, looked up with \<open>map_of\<close>.  A string is the list of the bytes of its UTF-8
  encoding: on well-formed strings, containment and splitting at a colon are the same on
  the bytes as on the code units of the runtime.
\<close>

datatype json = JUndefined | JNull | JBool bool | JNum int | JStr string
  | JArr "json list" | JObj "(string \<times> json) list"

text \<open>Values that can be thrown: \<^verbatim>\<open>new Error(message)\<close>, a \<^verbatim>\<open>TypeError\<close> raised by the
  runtime, and the error of the HTTP library (message and \<^verbatim>\<open>error.response?.data\<close>).\<close>

datatype thrown = Error string | TypeError string | AxiosError string json

fun message :: "thrown \<Rightarrow> string" where
  "message (Error m) = m"
| "message (TypeError m) = m"
| "message (AxiosError m d) = m"

text \<open>\<^verbatim>\<open>String(error)\<close> of an error object: its name, a colon and its message.\<close>

fun String_of_thrown :: "thrown \<Rightarrow> string" where
  "String_of_thrown (Error m) = ''Error: '' @ m"
| "String_of_thrown (TypeError m) = ''TypeError: '' @ m"
| "String_of_thrown (AxiosError m d) = ''AxiosError: '' @ m"

text \<open>Truthiness, as tested by \<^verbatim>\<open>if (v)\<close>, \<^verbatim>\<open>v && e\<close> and \<^verbatim>\<open>v || e\<close>.\<close>

fun truthy :: "json \<Rightarrow> bool" where
  "truthy JUndefined = False"
| "truthy JNull = False"
| "truthy (JBool b) = b"
| "truthy (JNum n) = (n \<noteq> 0)"
| "truthy (JStr s) = (s \<noteq> [])"
| "truthy (JArr xs) = True"
| "truthy (JObj kvs) = True"

text \<open>Reading a data property \<^verbatim>\<open>v.p\<close> of a value that is neither \<^verbatim>\<open>null\<close> nor
  \<^verbatim>\<open>undefined\<close>: an own property of an object, \<^verbatim>\<open>undefined\<close> otherwise (none of the
  properties read this way is inherited).\<close>

fun own_prop :: "json \<Rightarrow> string \<Rightarrow> json" where
  "own_prop (JObj kvs) p = (case map_of kvs p of Some v \<Rightarrow> v | None \<Rightarrow> JUndefined)"
| "own_prop v p = JUndefined"

fun nullish :: "json \<Rightarrow> bool" where
  "nullish JUndefined = True"
| "nullish JNull = True"
| "nullish v = False"

text \<open>\<^verbatim>\<open>v.p\<close> throws a TypeError on \<^verbatim>\<open>null\<close> and \<^verbatim>\<open>undefined\<close>; \<^verbatim>\<open>v?.p\<close> yields
  \<^verbatim>\<open>undefined\<close> there.\<close>

definition get_prop :: "json \<Rightarrow> string \<Rightarrow> thrown + json" where
  "get_prop v p =
     (if nullish v then Inl (TypeError (''Cannot read properties of null or undefined (reading '' @ p @ '')''))
      else Inr (own_prop v p))"

definition opt_prop :: "json \<Rightarrow> string \<Rightarrow> json" where
  "opt_prop v p = (if nullish v then JUndefined else own_prop v p)"

text \<open>The number of UTF-16 code units of a string: one for each byte that starts a
  character (a byte that is not a continuation byte \<^verbatim>\<open>10xxxxxx\<close>), and one more for each
  character of four bytes (lead byte \<^verbatim>\<open>1111xxxx\<close>), which takes a surrogate pair.\<close>

definition continuation_byte :: "char \<Rightarrow> bool" where
  "continuation_byte c = (digit7 c \<and> \<not> digit6 c)"

definition four_byte_lead :: "char \<Rightarrow> bool" where
  "four_byte_lead c = (digit7 c \<and> digit6 c \<and> digit5 c \<and> digit4 c)"

definition utf16_length :: "string \<Rightarrow> nat" where
  "utf16_length s =
     length (filter (\<lambda>c. \<not> continuation_byte c) s) + length (filter four_byte_lead s)"

text \<open>\<^verbatim>\<open>v.length\<close> of a truthy value: arrays and strings have it, an object may own it.\<close>

fun js_length :: "json \<Rightarrow> json" where
  "js_length (JArr xs) = JNum (int (length xs))"
| "js_length (JStr s) = JNum (int (utf16_length s))"
| "js_length v = own_prop v ''length''"

subsection \<open>Numbers as text\<close>

fun digits :: "nat \<Rightarrow> string" where
  "digits n =
     (if n < 10 then [''0123456789'' ! n]
      else digits (n div 10) @ [''0123456789'' ! (n mod 10)])"

declare digits.simps [simp del]

definition show_int :: "int \<Rightarrow> string" where
  "show_int n = (if n < 0 then CHR ''-'' # digits (nat (- n)) else digits (nat n))"

subsection \<open>Coercions of the runtime\<close>

text \<open>
  Comparisons between numbers and the rendering of numbers and strings are computed.
  What the runtime does with any other operand (parsing a string as a number,
  converting an array or an object to a primitive, which can throw), the locale-dependent
  \<^verbatim>\<open>toLocaleString\<close>, \<^verbatim>\<open>JSON.stringify\<close> and \<^verbatim>\<open>toLowerCase\<close> on a string with characters
  beyond ASCII are parameters of the model; \<open>None\<close> stands for a thrown TypeError.
\<close>

record js_env =
  coerce_ge :: "json \<Rightarrow> int \<Rightarrow> bool option"
  coerce_gt :: "json \<Rightarrow> json \<Rightarrow> bool option"
  coerce_lt :: "json \<Rightarrow> json \<Rightarrow> bool option"
  coerce_string :: "json \<Rightarrow> string option"
  number_toLocaleString :: "int \<Rightarrow> string"
  coerce_toLocaleString :: "json \<Rightarrow> string option"
  JSON_stringify :: "json \<Rightarrow> string"
  unicode_toLowerCase :: "string \<Rightarrow> string"

fun js_ge :: "js_env \<Rightarrow> json \<Rightarrow> int \<Rightarrow> bool option" where
  "js_ge env (JNum n) k = Some (k \<le> n)"
| "js_ge env v k = coerce_ge env v k"

fun js_gt :: "js_env \<Rightarrow> json \<Rightarrow> json \<Rightarrow> bool option" where
  "js_gt env (JNum x) (JNum y) = Some (y < x)"
| "js_gt env a b = coerce_gt env a b"

fun js_lt :: "js_env \<Rightarrow> json \<Rightarrow> json \<Rightarrow> bool option" where
  "js_lt env (JNum x) (JNum y) = Some (x < y)"
| "js_lt env a b = coerce_lt env a b"

text \<open>\<^verbatim>\<open>${v}\<close> in a template literal.\<close>

fun ToString :: "js_env \<Rightarrow> json \<Rightarrow> string option" where
  "ToString env JUndefined = Some ''undefined''"
| "ToString env JNull = Some ''null''"
| "ToString env (JBool b) = Some (if b then ''true'' else ''false'')"
| "ToString env (JNum n) = Some (show_int n)"
| "ToString env (JStr s) = Some s"
| "ToString env v = coerce_string env v"

text \<open>\<^verbatim>\<open>v.toLocaleString()\<close> of a truthy value.\<close>

fun toLocaleString :: "js_env \<Rightarrow> json \<Rightarrow> string option" where
  "toLocaleString env (JNum n) = Some (number_toLocaleString env n)"
| "toLocaleString env v = coerce_toLocaleString env v"

subsection \<open>Strings\<close>

text \<open>\<^verbatim>\<open>toLowerCase\<close>, \<^verbatim>\<open>includes\<close> and \<^verbatim>\<open>split(':')\<close>.  On a string of ASCII characters
  \<^verbatim>\<open>toLowerCase\<close> replaces the letters A to Z; on any other string it is the runtime's
  Unicode lower-casing, a parameter.\<close>

definition toLowerCase_char :: "char \<Rightarrow> char" where
  "toLowerCase_char c =
     (case map_of (zip ''ABCDEFGHIJKLMNOPQRSTUVWXYZ'' ''abcdefghijklmnopqrstuvwxyz'') c of
        Some l \<Rightarrow> l
      | None \<Rightarrow> c)"

definition is_ascii :: "char \<Rightarrow> bool" where
  "is_ascii c = (\<not> digit7 c)"

definition toLowerCase :: "js_env \<Rightarrow> string \<Rightarrow> string" where
  "toLowerCase env s =
     (if list_all is_ascii s then map toLowerCase_char s else unicode_toLowerCase env s)"

fun js_includes :: "string \<Rightarrow> string \<Rightarrow> bool" where
  "js_includes [] t = (t = [])"
| "js_includes (c # cs) t = (prefix t (c # cs) \<or> js_includes cs t)"

fun split_colon :: "string \<Rightarrow> string list" where
  "split_colon [] = [[]]"
| "split_colon (c # cs) =
     (if c = CHR '':'' then [] # split_colon cs
      else (case split_colon cs of
              p # ps \<Rightarrow> (c # p) # ps
            | [] \<Rightarrow> [[c]]))"

fun nth_opt :: "'a list \<Rightarrow> nat \<Rightarrow> 'a option" where
  "nth_opt [] n = None"
| "nth_opt (x # xs) 0 = Some x"
| "nth_opt (x # xs) (Suc n) = nth_opt xs n"

section \<open>The client\<close>

subsection \<open>Construction and authentication\<close>

record MozApiClient =
  apiToken :: string
  accessId :: "string option"
  secretKey :: "string option"

text \<open>
  \<^verbatim>\<open>Buffer.from(token, 'base64').toString('utf-8')\<close> is a parameter \<open>decode\<close> of the
  constructor (\<open>None\<close>: it threw).  The constructor returns the client and the line it
  logs.
\<close>

definition log_V2 :: string where
  "log_V2 = ''Using Access ID/Secret Key authentication (V2)''"

definition log_V3 :: string where
  "log_V3 = ''Using API token authentication (V3)''"

definition new_MozApiClient :: "(string \<Rightarrow> string option) \<Rightarrow> string \<Rightarrow> MozApiClient \<times> string" where
  "new_MozApiClient decode token =
     (case decode token of
        Some decoded \<Rightarrow>
          if CHR '':'' \<in> set decoded then
            (let parts = split_colon decoded
             in (\<lparr>apiToken = token, accessId = nth_opt parts 0, secretKey = nth_opt parts 1\<rparr>, log_V2))
          else (\<lparr>apiToken = token, accessId = None, secretKey = None\<rparr>, log_V3)
      | None \<Rightarrow> (\<lparr>apiToken = token, accessId = None, secretKey = None\<rparr>, log_V3))"

text \<open>
  A base64 decoder as lenient as the runtime's: characters outside the alphabet are
  skipped, decoding stops at the first \<^verbatim>\<open>=\<close>, and the URL-safe characters are accepted.
  Bytes are kept as characters (UTF-8 decoding leaves ASCII bytes, the colon among them,
  as they are).
\<close>

definition unbase64 :: "char \<Rightarrow> nat option" where
  "unbase64 c =
     map_of (zip (''ABCDEFGHIJKLMNOPQRSTUVWXYZabcdefghijklmnopqrstuvwxyz0123456789+/'' @ ''-_'')
                 ([0 ..< 64] @ [62, 63])) c"

fun sextets :: "string \<Rightarrow> nat list" where
  "sextets [] = []"
| "sextets (c # cs) =
     (if c = CHR ''='' then []
      else (case unbase64 c of Some v \<Rightarrow> v # sextets cs | None \<Rightarrow> sextets cs))"

fun octets :: "nat list \<Rightarrow> nat list" where
  "octets (a # b # c # d # rest) =
     (a * 4 + b div 16) # ((b mod 16) * 16 + c div 4) # ((c mod 4) * 64 + d) # octets rest"
| "octets [a, b, c] = [a * 4 + b div 16, (b mod 16) * 16 + c div 4]"
| "octets [a, b] = [a * 4 + b div 16]"
| "octets rest = []"

definition base64_decode :: "string \<Rightarrow> string option" where
  "base64_decode s = Some (map char_of (octets (sextets s)))"

definition falsy_string :: "string option \<Rightarrow> bool" where
  "falsy_string s = (case s of None \<Rightarrow> True | Some t \<Rightarrow> t = [])"

definition getAuthHeaders :: "MozApiClient \<Rightarrow> (string \<times> string) list" where
  "getAuthHeaders c =
     (if falsy_string (accessId c) \<or> falsy_string (secretKey c)
      then [(''x-moz-token'', apiToken c)]
      else [(''x-moz-token'', apiToken c)])"

subsection \<open>Requests and responses\<close>

record JsonRpcRequest =
  jsonrpc :: string
  rpc_id :: string
  rpc_method :: string
  params :: json

text \<open>
  The outside world: \<open>uuidv4 k\<close> is the identifier drawn for the \<open>k\<close>-th call and
  \<open>post k headers request\<close> the outcome of the \<open>k\<close>-th HTTP exchange, either the parsed
  body of the response or a rejection.  Diagnostic log lines are not modelled.
\<close>

datatype axios_outcome = Resolved json | Rejected thrown

record remote =
  uuidv4 :: "nat \<Rightarrow> string"
  post :: "nat \<Rightarrow> (string \<times> string) list \<Rightarrow> JsonRpcRequest \<Rightarrow> axios_outcome"

definition createRequest :: "remote \<Rightarrow> nat \<Rightarrow> string \<Rightarrow> json \<Rightarrow> JsonRpcRequest" where
  "createRequest rm k m ps = \<lparr>jsonrpc = ''2.0'', rpc_id = uuidv4 rm k, rpc_method = m, params = ps\<rparr>"

definition api_error_message :: "js_env \<Rightarrow> json \<Rightarrow> thrown" where
  "api_error_message env err =
     (case ToString env (own_prop err ''message'') of
        None \<Rightarrow> TypeError ''Cannot convert object to primitive value''
      | Some m \<Rightarrow>
          (case ToString env (own_prop err ''code'') of
             None \<Rightarrow> TypeError ''Cannot convert object to primitive value''
           | Some cd \<Rightarrow> Error (''Moz API Error: '' @ m @ '' (Code: '' @ cd @ '')'')))"

definition sendRequest_try :: "js_env \<Rightarrow> remote \<Rightarrow> MozApiClient \<Rightarrow> nat \<Rightarrow> JsonRpcRequest \<Rightarrow> thrown + json" where
  "sendRequest_try env rm c k request =
     (case post rm k (getAuthHeaders c) request of
        Rejected e \<Rightarrow> Inl e
      | Resolved data \<Rightarrow>
          (case get_prop data ''error'' of
             Inl e \<Rightarrow> Inl e
           | Inr err \<Rightarrow>
               if truthy err then Inl (api_error_message env err)
               else get_prop data ''result''))"

definition sendRequest :: "js_env \<Rightarrow> remote \<Rightarrow> MozApiClient \<Rightarrow> nat \<Rightarrow> JsonRpcRequest \<Rightarrow> thrown + json" where
  "sendRequest env rm c k request =
     (case sendRequest_try env rm c k request of
        Inl (AxiosError m d) \<Rightarrow>
          Inl (Error (''Network Error: '' @ m @ '' - '' @
                      (if truthy d then JSON_stringify env d else ''No response data'')))
      | Inl e \<Rightarrow> Inl e
      | Inr v \<Rightarrow> Inr v)"

subsection \<open>Endpoint wrappers\<close>

text \<open>
  The optional flat options record of the wrappers; each wrapper reads the fields its
  signature declares.  \<open>None\<close> is an absent field, and a wrapper called without options
  gets \<open>None\<close> for the record.
\<close>

record options =
  locale_opt :: "string option"
  engine :: "string option"
  limit :: "int option"
  scope :: "string option"
  sort :: "string option"
  filter_opt :: "string option"
  sourceScope :: "string option"
  metrics :: "string list option"
  start :: "string option"
  end_opt :: "string option"
  include_keyword_analysis :: "bool option"

text \<open>\<^verbatim>\<open>options?.f\<close>, \<^verbatim>\<open>v || d\<close> on strings and numbers, and the conditional spread
  \<^verbatim>\<open>...(v && { name: v })\<close>.\<close>

definition opt_field :: "('o \<Rightarrow> 'a option) \<Rightarrow> 'o option \<Rightarrow> 'a option" where
  "opt_field f os = (case os of None \<Rightarrow> None | Some r \<Rightarrow> f r)"

definition or_string :: "string option \<Rightarrow> string \<Rightarrow> string" where
  "or_string v d = (case v of None \<Rightarrow> d | Some s \<Rightarrow> if s = [] then d else s)"

definition or_number :: "int option \<Rightarrow> int \<Rightarrow> int" where
  "or_number v d = (case v of None \<Rightarrow> d | Some n \<Rightarrow> if n = 0 then d else n)"

definition spread_string :: "string \<Rightarrow> string option \<Rightarrow> (string \<times> json) list" where
  "spread_string name v =
     (case v of None \<Rightarrow> [] | Some s \<Rightarrow> if s = [] then [] else [(name, JStr s)])"

definition spread_strings :: "string \<Rightarrow> string list option \<Rightarrow> (string \<times> json) list" where
  "spread_strings name v =
     (case v of None \<Rightarrow> [] | Some xs \<Rightarrow> [(name, JArr (map JStr xs))])"

definition serp_query :: "string \<Rightarrow> options option \<Rightarrow> json" where
  "serp_query keyword os =
     JObj [(''data'', JObj [(''serp_query'', JObj
       [(''keyword'', JStr keyword),
        (''locale'', JStr (or_string (opt_field locale_opt os) ''en-US'')),
        (''device'', JStr ''desktop''),
        (''engine'', JStr (or_string (opt_field engine os) ''google''))])])]"

definition site_query :: "string \<Rightarrow> json" where
  "site_query site =
     JObj [(''data'', JObj [(''site_query'', JObj
       [(''query'', JStr site), (''scope'', JStr ''domain'')])])]"

definition getQuota_request :: "remote \<Rightarrow> nat \<Rightarrow> JsonRpcRequest" where
  "getQuota_request rm k =
     createRequest rm k ''quota.lookup''
       (JObj [(''data'', JObj [(''path'', JStr ''api.limits.data.rows'')])])"

definition getKeywordSearchIntent_request :: "remote \<Rightarrow> nat \<Rightarrow> string \<Rightarrow> options option \<Rightarrow> JsonRpcRequest" where
  "getKeywordSearchIntent_request rm k keyword os =
     createRequest rm k ''data.keyword.search.intent.fetch'' (serp_query keyword os)"

definition getKeywordSuggestions_request :: "remote \<Rightarrow> nat \<Rightarrow> string \<Rightarrow> options option \<Rightarrow> JsonRpcRequest" where
  "getKeywordSuggestions_request rm k keyword os =
     createRequest rm k ''data.keyword.suggestions.list''
       (JObj [(''data'', JObj [(''serp_query'', JObj
          [(''keyword'', JStr keyword),
           (''locale'', JStr (or_string (opt_field locale_opt os) ''en-US'')),
           (''device'', JStr ''desktop''),
           (''engine'', JStr ''google'')])])])"

definition getKeywordDifficulty_request :: "remote \<Rightarrow> nat \<Rightarrow> string \<Rightarrow> options option \<Rightarrow> JsonRpcRequest" where
  "getKeywordDifficulty_request rm k keyword os =
     createRequest rm k ''data.keyword.metrics.difficulty.fetch'' (serp_query keyword os)"

definition getKeywordVolume_request :: "remote \<Rightarrow> nat \<Rightarrow> string \<Rightarrow> options option \<Rightarrow> JsonRpcRequest" where
  "getKeywordVolume_request rm k keyword os =
     createRequest rm k ''data.keyword.metrics.volume.fetch'' (serp_query keyword os)"

definition getKeywordMetrics_request :: "remote \<Rightarrow> nat \<Rightarrow> string \<Rightarrow> options option \<Rightarrow> JsonRpcRequest" where
  "getKeywordMetrics_request rm k keyword os =
     createRequest rm k ''data.keyword.metrics.fetch'' (serp_query keyword os)"

definition getKeywordOpportunity_request :: "remote \<Rightarrow> nat \<Rightarrow> string \<Rightarrow> options option \<Rightarrow> JsonRpcRequest" where
  "getKeywordOpportunity_request rm k keyword os =
     createRequest rm k ''data.keyword.metrics.opportunity.fetch'' (serp_query keyword os)"

definition getKeywordPriority_request :: "remote \<Rightarrow> nat \<Rightarrow> string \<Rightarrow> options option \<Rightarrow> JsonRpcRequest" where
  "getKeywordPriority_request rm k keyword os =
     createRequest rm k ''data.keyword.metrics.priority.fetch'' (serp_query keyword os)"

definition getSiteBrandAuthority_request :: "remote \<Rightarrow> nat \<Rightarrow> string \<Rightarrow> JsonRpcRequest" where
  "getSiteBrandAuthority_request rm k site =
     createRequest rm k ''data.site.metrics.brand.authority.fetch'' (site_query site)"

definition getSiteMetrics_request :: "remote \<Rightarrow> nat \<Rightarrow> string \<Rightarrow> JsonRpcRequest" where
  "getSiteMetrics_request rm k site =
     createRequest rm k ''data.site.metrics.fetch'' (site_query site)"

definition getSiteRankingKeywords_request :: "remote \<Rightarrow> nat \<Rightarrow> string \<Rightarrow> options option \<Rightarrow> JsonRpcRequest" where
  "getSiteRankingKeywords_request rm k site os =
     createRequest rm k ''data.site.ranking.keywords.list''
       (JObj [(''data'', JObj
          [(''target_query'', JObj
              [(''query'', JStr site),
               (''scope'', JStr ''domain''),
               (''locale'', JStr (or_string (opt_field locale_opt os) ''en-US''))]),
           (''serp_query'', JObj
              [(''engine'', JStr (or_string (opt_field engine os) ''google'')),
               (''locale'', JStr (or_string (opt_field locale_opt os) ''en-US''))]),
           (''limit'', JNum (or_number (opt_field limit os) 100))])])"

definition getUrlMetrics_request :: "remote \<Rightarrow> nat \<Rightarrow> string list \<Rightarrow> options option \<Rightarrow> JsonRpcRequest" where
  "getUrlMetrics_request rm k targets os =
     createRequest rm k ''data.url_metrics''
       (JObj [(''data'', JObj
          ([(''targets'', JArr (map JStr targets))]
           @ spread_string ''scope'' (opt_field scope os)
           @ spread_strings ''metrics'' (opt_field metrics os)))])"

definition getLinks_request :: "remote \<Rightarrow> nat \<Rightarrow> string \<Rightarrow> options option \<Rightarrow> JsonRpcRequest" where
  "getLinks_request rm k target os =
     createRequest rm k ''data.links''
       (JObj [(''data'', JObj
          ([(''target'', JStr target),
            (''scope'', JStr (or_string (opt_field scope os) ''page'')),
            (''limit'', JNum (or_number (opt_field limit os) 50))]
           @ spread_string ''sort'' (opt_field sort os)
           @ spread_string ''filter'' (opt_field filter_opt os)
           @ spread_string ''source_scope'' (opt_field sourceScope os)))])"

definition getAnchorText_request :: "remote \<Rightarrow> nat \<Rightarrow> string \<Rightarrow> options option \<Rightarrow> JsonRpcRequest" where
  "getAnchorText_request rm k target os =
     createRequest rm k ''data.anchor_text''
       (JObj [(''data'', JObj
          ([(''target'', JStr target),
            (''scope'', JStr (or_string (opt_field scope os) ''page'')),
            (''limit'', JNum (or_number (opt_field limit os) 50))]
           @ spread_string ''sort'' (opt_field sort os)))])"

definition getTopPages_request :: "remote \<Rightarrow> nat \<Rightarrow> string \<Rightarrow> options option \<Rightarrow> JsonRpcRequest" where
  "getTopPages_request rm k target os =
     createRequest rm k ''data.top_pages''
       (JObj [(''data'', JObj
          ([(''target'', JStr target),
            (''scope'', JStr (or_string (opt_field scope os) ''root_domain'')),
            (''limit'', JNum (or_number (opt_field limit os) 50))]
           @ spread_string ''sort'' (opt_field sort os)))])"

definition getLinkingDomains_request :: "remote \<Rightarrow> nat \<Rightarrow> string \<Rightarrow> options option \<Rightarrow> JsonRpcRequest" where
  "getLinkingDomains_request rm k target os =
     createRequest rm k ''data.linking_domains''
       (JObj [(''data'', JObj
          ([(''target'', JStr target),
            (''scope'', JStr (or_string (opt_field scope os) ''page'')),
            (''limit'', JNum (or_number (opt_field limit os) 50))]
           @ spread_string ''sort'' (opt_field sort os)
           @ spread_string ''filter'' (opt_field filter_opt os)))])"

definition getGlobalTopPages_request :: "remote \<Rightarrow> nat \<Rightarrow> options option \<Rightarrow> JsonRpcRequest" where
  "getGlobalTopPages_request rm k os =
     createRequest rm k ''data.global.top.pages.list''
       (JObj [(''data'', JObj [(''limit'', JNum (or_number (opt_field limit os) 100))])])"

definition getGlobalTopDomains_request :: "remote \<Rightarrow> nat \<Rightarrow> options option \<Rightarrow> JsonRpcRequest" where
  "getGlobalTopDomains_request rm k os =
     createRequest rm k ''data.global.top.domains.list''
       (JObj [(''data'', JObj [(''limit'', JNum (or_number (opt_field limit os) 100))])])"

definition getUsageData_request :: "remote \<Rightarrow> nat \<Rightarrow> options option \<Rightarrow> JsonRpcRequest" where
  "getUsageData_request rm k os =
     createRequest rm k ''data.usage''
       (JObj [(''data'', JObj
          (spread_string ''start'' (opt_field start os)
           @ spread_string ''end'' (opt_field end_opt os)))])"

definition getSiteMetricsMultiple_request :: "remote \<Rightarrow> nat \<Rightarrow> string list \<Rightarrow> JsonRpcRequest" where
  "getSiteMetricsMultiple_request rm k sites =
     createRequest rm k ''data.site.metrics.fetch.multiple''
       (JObj [(''data'', JObj [(''site_queries'', JArr (map (\<lambda>site.
          JObj [(''query'', JStr site), (''scope'', JStr ''domain'')]) sites))])])"

definition getSiteRankingKeywordsCount_request :: "remote \<Rightarrow> nat \<Rightarrow> string \<Rightarrow> options option \<Rightarrow> JsonRpcRequest" where
  "getSiteRankingKeywordsCount_request rm k site os =
     createRequest rm k ''site.ranking_keywords.count''
       (JObj [(''data'', JObj
          [(''site'', JStr site),
           (''engine'', JStr (or_string (opt_field engine os) ''google'')),
           (''locale'', JStr (or_string (opt_field locale_opt os) ''en-US''))])])"

text \<open>Each wrapper builds its request and hands it to \<open>sendRequest\<close>; \<open>k\<close> numbers the
  call.\<close>

definition getKeywordSuggestions :: "js_env \<Rightarrow> remote \<Rightarrow> MozApiClient \<Rightarrow> nat \<Rightarrow> string \<Rightarrow> options option \<Rightarrow> thrown + json" where
  "getKeywordSuggestions env rm c k keyword os =
     sendRequest env rm c k (getKeywordSuggestions_request rm k keyword os)"

definition getKeywordSearchIntent :: "js_env \<Rightarrow> remote \<Rightarrow> MozApiClient \<Rightarrow> nat \<Rightarrow> string \<Rightarrow> options option \<Rightarrow> thrown + json" where
  "getKeywordSearchIntent env rm c k keyword os =
     sendRequest env rm c k (getKeywordSearchIntent_request rm k keyword os)"

definition getKeywordDifficulty :: "js_env \<Rightarrow> remote \<Rightarrow> MozApiClient \<Rightarrow> nat \<Rightarrow> string \<Rightarrow> options option \<Rightarrow> thrown + json" where
  "getKeywordDifficulty env rm c k keyword os =
     sendRequest env rm c k (getKeywordDifficulty_request rm k keyword os)"

definition getKeywordVolume :: "js_env \<Rightarrow> remote \<Rightarrow> MozApiClient \<Rightarrow> nat \<Rightarrow> string \<Rightarrow> options option \<Rightarrow> thrown + json" where
  "getKeywordVolume env rm c k keyword os =
     sendRequest env rm c k (getKeywordVolume_request rm k keyword os)"

definition getKeywordMetrics :: "js_env \<Rightarrow> remote \<Rightarrow> MozApiClient \<Rightarrow> nat \<Rightarrow> string \<Rightarrow> options option \<Rightarrow> thrown + json" where
  "getKeywordMetrics env rm c k keyword os =
     sendRequest env rm c k (getKeywordMetrics_request rm k keyword os)"

definition getSiteBrandAuthority :: "js_env \<Rightarrow> remote \<Rightarrow> MozApiClient \<Rightarrow> nat \<Rightarrow> string \<Rightarrow> thrown + json" where
  "getSiteBrandAuthority env rm c k site =
     sendRequest env rm c k (getSiteBrandAuthority_request rm k site)"

definition getSiteMetrics :: "js_env \<Rightarrow> remote \<Rightarrow> MozApiClient \<Rightarrow> nat \<Rightarrow> string \<Rightarrow> thrown + json" where
  "getSiteMetrics env rm c k site =
     sendRequest env rm c k (getSiteMetrics_request rm k site)"

definition getSiteRankingKeywords :: "js_env \<Rightarrow> remote \<Rightarrow> MozApiClient \<Rightarrow> nat \<Rightarrow> string \<Rightarrow> options option \<Rightarrow> thrown + json" where
  "getSiteRankingKeywords env rm c k site os =
     sendRequest env rm c k (getSiteRankingKeywords_request rm k site os)"

definition getQuota :: "js_env \<Rightarrow> remote \<Rightarrow> MozApiClient \<Rightarrow> nat \<Rightarrow> thrown + json" where
  "getQuota env rm c k =
     sendRequest env rm c k (getQuota_request rm k)"

definition getKeywordOpportunity :: "js_env \<Rightarrow> remote \<Rightarrow> MozApiClient \<Rightarrow> nat \<Rightarrow> string \<Rightarrow> options option \<Rightarrow> thrown + json" where
  "getKeywordOpportunity env rm c k keyword os =
     sendRequest env rm c k (getKeywordOpportunity_request rm k keyword os)"

definition getKeywordPriority :: "js_env \<Rightarrow> remote \<Rightarrow> MozApiClient \<Rightarrow> nat \<Rightarrow> string \<Rightarrow> options option \<Rightarrow> thrown + json" where
  "getKeywordPriority env rm c k keyword os =
     sendRequest env rm c k (getKeywordPriority_request rm k keyword os)"

definition getUrlMetrics :: "js_env \<Rightarrow> remote \<Rightarrow> MozApiClient \<Rightarrow> nat \<Rightarrow> string list \<Rightarrow> options option \<Rightarrow> thrown + json" where
  "getUrlMetrics env rm c k targets os =
     sendRequest env rm c k (getUrlMetrics_request rm k targets os)"

definition getLinks :: "js_env \<Rightarrow> remote \<Rightarrow> MozApiClient \<Rightarrow> nat \<Rightarrow> string \<Rightarrow> options option \<Rightarrow> thrown + json" where
  "getLinks env rm c k target os =
     sendRequest env rm c k (getLinks_request rm k target os)"

definition getAnchorText :: "js_env \<Rightarrow> remote \<Rightarrow> MozApiClient \<Rightarrow> nat \<Rightarrow> string \<Rightarrow> options option \<Rightarrow> thrown + json" where
  "getAnchorText env rm c k target os =
     sendRequest env rm c k (getAnchorText_request rm k target os)"

definition getTopPages :: "js_env \<Rightarrow> remote \<Rightarrow> MozApiClient \<Rightarrow> nat \<Rightarrow> string \<Rightarrow> options option \<Rightarrow> thrown + json" where
  "getTopPages env rm c k target os =
     sendRequest env rm c k (getTopPages_request rm k target os)"

definition getLinkingDomains :: "js_env \<Rightarrow> remote \<Rightarrow> MozApiClient \<Rightarrow> nat \<Rightarrow> string \<Rightarrow> options option \<Rightarrow> thrown + json" where
  "getLinkingDomains env rm c k target os =
     sendRequest env rm c k (getLinkingDomains_request rm k target os)"

definition getGlobalTopPages :: "js_env \<Rightarrow> remote \<Rightarrow> MozApiClient \<Rightarrow> nat \<Rightarrow> options option \<Rightarrow> thrown + json" where
  "getGlobalTopPages env rm c k os =
     sendRequest env rm c k (getGlobalTopPages_request rm k os)"

definition getGlobalTopDomains :: "js_env \<Rightarrow> remote \<Rightarrow> MozApiClient \<Rightarrow> nat \<Rightarrow> options option \<Rightarrow> thrown + json" where
  "getGlobalTopDomains env rm c k os =
     sendRequest env rm c k (getGlobalTopDomains_request rm k os)"

definition getUsageData :: "js_env \<Rightarrow> remote \<Rightarrow> MozApiClient \<Rightarrow> nat \<Rightarrow> options option \<Rightarrow> thrown + json" where
  "getUsageData env rm c k os =
     sendRequest env rm c k (getUsageData_request rm k os)"

definition getSiteMetricsMultiple :: "js_env \<Rightarrow> remote \<Rightarrow> MozApiClient \<Rightarrow> nat \<Rightarrow> string list \<Rightarrow> thrown + json" where
  "getSiteMetricsMultiple env rm c k sites =
     sendRequest env rm c k (getSiteMetricsMultiple_request rm k sites)"

definition getSiteRankingKeywordsCount :: "js_env \<Rightarrow> remote \<Rightarrow> MozApiClient \<Rightarrow> nat \<Rightarrow> string \<Rightarrow> options option \<Rightarrow> thrown + json" where
  "getSiteRankingKeywordsCount env rm c k site os =
     sendRequest env rm c k (getSiteRankingKeywordsCount_request rm k site os)"

section \<open>Insight generation\<close>

text \<open>
  \<^verbatim>\<open>generateCompetitorInsights\<close> pushes lines onto \<^verbatim>\<open>insights\<close> inside one
  \<^verbatim>\<open>try\<close> block.  A block of statements maps the lines pushed so far to \<open>Done\<close> with
  the lines after it, or to \<open>Threw\<close> with the lines pushed before the exception.
\<close>

datatype steps = Done "string list" | Threw "string list"

fun then_step :: "steps \<Rightarrow> (string list \<Rightarrow> steps) \<Rightarrow> steps" where
  "then_step (Done insights) f = f insights"
| "then_step (Threw insights) f = Threw insights"

text \<open>The nested conditional \<^verbatim>\<open>v >= 70 ? a : v >= 50 ? b : v >= 30 ? c : d\<close>.\<close>

definition band :: "js_env \<Rightarrow> json \<Rightarrow> string \<Rightarrow> string \<Rightarrow> string \<Rightarrow> string \<Rightarrow> string option" where
  "band env v a b c d =
     (case js_ge env v 70 of
        None \<Rightarrow> None
      | Some True \<Rightarrow> Some a
      | Some False \<Rightarrow>
          (case js_ge env v 50 of
             None \<Rightarrow> None
           | Some True \<Rightarrow> Some b
           | Some False \<Rightarrow>
               (case js_ge env v 30 of
                  None \<Rightarrow> None
                | Some True \<Rightarrow> Some c
                | Some False \<Rightarrow> Some d)))"

definition primary_site_insights :: "js_env \<Rightarrow> json \<Rightarrow> string list \<Rightarrow> steps" where
  "primary_site_insights env analysis insights =
     (case get_prop analysis ''primary_site_data'' of
        Inl e \<Rightarrow> Threw insights
      | Inr psd \<Rightarrow>
          if truthy (opt_prop (opt_prop psd ''brand_authority'') ''result'') then
            (let ba = own_prop (own_prop (own_prop psd ''brand_authority'') ''result'') ''brand_authority''
             in if truthy ba then
                  (case ToString env ba of
                     None \<Rightarrow> Threw insights
                   | Some s \<Rightarrow>
                       (case band env ba ''Excellent'' ''Good'' ''Fair'' ''Needs improvement'' of
                          None \<Rightarrow> Threw insights
                        | Some b \<Rightarrow>
                            Done (insights @ [''Primary site brand authority: '' @ s @ '' ('' @ b @ '')''])))
                else Done insights)
          else Done insights)"

definition keyword_difficulty_insights :: "js_env \<Rightarrow> json \<Rightarrow> string list \<Rightarrow> steps" where
  "keyword_difficulty_insights env analysis insights =
     (case get_prop analysis ''keyword_analysis'' of
        Inl e \<Rightarrow> Threw insights
      | Inr ka \<Rightarrow>
          if truthy (opt_prop (opt_prop ka ''difficulty'') ''result'') then
            (let difficulty = own_prop (own_prop (own_prop ka ''difficulty'') ''result'') ''difficulty''
             in if truthy difficulty then
                  (case ToString env (own_prop analysis ''target_keyword'') of
                     None \<Rightarrow> Threw insights
                   | Some t \<Rightarrow>
                       (case ToString env difficulty of
                          None \<Rightarrow> Threw insights
                        | Some s \<Rightarrow>
                            (case band env difficulty ''Very Hard'' ''Hard'' ''Medium'' ''Easy'' of
                               None \<Rightarrow> Threw insights
                             | Some b \<Rightarrow>
                                 Done (insights @ [''Target keyword \"'' @ t @ ''\" difficulty: '' @ s
                                                   @ ''% ('' @ b @ '')'']))))
                else Done insights)
          else Done insights)"

definition keyword_volume_insights :: "js_env \<Rightarrow> json \<Rightarrow> string list \<Rightarrow> steps" where
  "keyword_volume_insights env analysis insights =
     (case get_prop analysis ''keyword_analysis'' of
        Inl e \<Rightarrow> Threw insights
      | Inr ka \<Rightarrow>
          if truthy (opt_prop (opt_prop ka ''volume'') ''result'') then
            (let volume = own_prop (own_prop (own_prop ka ''volume'') ''result'') ''volume''
             in if truthy volume then
                  (case toLocaleString env volume of
                     None \<Rightarrow> Threw insights
                   | Some s \<Rightarrow> Done (insights @ [''Target keyword monthly search volume: '' @ s]))
                else Done insights)
          else Done insights)"

text \<open>The \<^verbatim>\<open>forEach\<close> over the competitors, with the two counters as accumulator.\<close>

fun count_competitors :: "js_env \<Rightarrow> json \<Rightarrow> json list \<Rightarrow> nat \<times> nat \<Rightarrow> (nat \<times> nat) option" where
  "count_competitors env primaryBA [] counters = Some counters"
| "count_competitors env primaryBA (competitor # competitors) (strongerCompetitors, weakerCompetitors) =
     (case get_prop competitor ''brand_authority'' of
        Inl e \<Rightarrow> None
      | Inr b \<Rightarrow>
          (let compBA = opt_prop (opt_prop b ''result'') ''brand_authority''
           in if truthy primaryBA \<and> truthy compBA then
                (case js_gt env compBA primaryBA of
                   None \<Rightarrow> None
                 | Some True \<Rightarrow>
                     count_competitors env primaryBA competitors (strongerCompetitors + 1, weakerCompetitors)
                 | Some False \<Rightarrow>
                     (case js_lt env compBA primaryBA of
                        None \<Rightarrow> None
                      | Some True \<Rightarrow>
                          count_competitors env primaryBA competitors (strongerCompetitors, weakerCompetitors + 1)
                      | Some False \<Rightarrow>
                          count_competitors env primaryBA competitors (strongerCompetitors, weakerCompetitors)))
              else count_competitors env primaryBA competitors (strongerCompetitors, weakerCompetitors)))"

definition primary_brand_authority :: "json \<Rightarrow> json" where
  "primary_brand_authority analysis =
     opt_prop (opt_prop (opt_prop (own_prop analysis ''primary_site_data'') ''brand_authority'')
                 ''result'') ''brand_authority''"

definition landscape_line :: "nat \<Rightarrow> nat \<Rightarrow> string" where
  "landscape_line strongerCompetitors weakerCompetitors =
     ''Competitive landscape: '' @ digits strongerCompetitors
     @ '' competitors have higher brand authority, '' @ digits weakerCompetitors @ '' have lower''"

definition competitor_comparison_insights :: "js_env \<Rightarrow> json \<Rightarrow> string list \<Rightarrow> steps" where
  "competitor_comparison_insights env analysis insights =
     (case get_prop analysis ''competitor_data'' of
        Inl e \<Rightarrow> Threw insights
      | Inr competitor_data \<Rightarrow>
          if nullish competitor_data then Threw insights
          else
            (case js_gt env (js_length competitor_data) (JNum 0) of
               None \<Rightarrow> Threw insights
             | Some False \<Rightarrow> Done insights
             | Some True \<Rightarrow>
                 (case competitor_data of
                    JArr competitors \<Rightarrow>
                      (case count_competitors env (primary_brand_authority analysis) competitors (0, 0) of
                         None \<Rightarrow> Threw insights
                       | Some (strongerCompetitors, weakerCompetitors) \<Rightarrow>
                           if strongerCompetitors > 0 \<or> weakerCompetitors > 0
                           then Done (insights @ [landscape_line strongerCompetitors weakerCompetitors])
                           else Done insights)
                  | _ \<Rightarrow> Threw insights)))"

text \<open>
  \<^verbatim>\<open>keywords.find(kw => kw.keyword && kw.keyword.toLowerCase().includes(target.toLowerCase()))\<close>:
  \<open>None\<close> if the callback throws, \<open>Some None\<close> if no entry is found.
\<close>

fun find_target :: "js_env \<Rightarrow> json \<Rightarrow> json list \<Rightarrow> json option option" where
  "find_target env target [] = Some None"
| "find_target env target (kw # kws) =
     (if nullish kw then None
      else
        (let keyword = own_prop kw ''keyword''
         in if truthy keyword then
              (case keyword of
                 JStr s \<Rightarrow>
                   (case target of
                      JStr t \<Rightarrow>
                        if js_includes (toLowerCase env s) (toLowerCase env t) then Some (Some kw)
                        else find_target env target kws
                    | _ \<Rightarrow> None)
               | _ \<Rightarrow> None)
            else find_target env target kws))"

definition rank_or_unknown :: "json \<Rightarrow> json" where
  "rank_or_unknown targetFound =
     (if truthy (own_prop targetFound ''rank'') then own_prop targetFound ''rank''
      else JStr ''unknown'')"

definition ranking_keywords_insights :: "js_env \<Rightarrow> json \<Rightarrow> string list \<Rightarrow> steps" where
  "ranking_keywords_insights env analysis insights =
     (case get_prop analysis ''primary_site_data'' of
        Inl e \<Rightarrow> Threw insights
      | Inr psd \<Rightarrow>
          if truthy (opt_prop (opt_prop psd ''ranking_keywords'') ''result'') then
            (let keywords = own_prop (own_prop psd ''ranking_keywords'') ''result''
             in if truthy keywords \<and> truthy (js_length keywords) then
                  (case ToString env (js_length keywords) of
                     None \<Rightarrow> Threw insights
                   | Some n \<Rightarrow>
                       (let insights1 = insights @ [''Primary site ranks for '' @ n
                                                    @ '' keywords (showing up to 100)'']
                        in case keywords of
                             JArr kws \<Rightarrow>
                               (case find_target env (own_prop analysis ''target_keyword'') kws of
                                  None \<Rightarrow> Threw insights1
                                | Some None \<Rightarrow>
                                    (case ToString env (own_prop analysis ''target_keyword'') of
                                       None \<Rightarrow> Threw insights1
                                     | Some t \<Rightarrow>
                                         Done (insights1 @
                                           [''Primary site does not appear to rank in top 100 for target keyword \"''
                                            @ t @ ''\"'']))
                                | Some (Some targetFound) \<Rightarrow>
                                    (case ToString env (own_prop analysis ''target_keyword'') of
                                       None \<Rightarrow> Threw insights1
                                     | Some t \<Rightarrow>
                                         (case ToString env (rank_or_unknown targetFound) of
                                            None \<Rightarrow> Threw insights1
                                          | Some r \<Rightarrow>
                                              Done (insights1 @
                                                [''Primary site ranks for target keyword \"'' @ t
                                                 @ ''\" at position '' @ r]))))
                           | _ \<Rightarrow> Threw insights1))
                else Done insights)
          else Done insights)"

definition insight_steps :: "js_env \<Rightarrow> json \<Rightarrow> steps" where
  "insight_steps env analysis =
     then_step (then_step (then_step (then_step
       (primary_site_insights env analysis [])
       (keyword_difficulty_insights env analysis))
       (keyword_volume_insights env analysis))
       (competitor_comparison_insights env analysis))
       (ranking_keywords_insights env analysis)"

definition fallback_note :: string where
  "fallback_note = ''Note: Some insights could not be generated due to data analysis issues''"

definition generateCompetitorInsights :: "js_env \<Rightarrow> json \<Rightarrow> string list" where
  "generateCompetitorInsights env analysis =
     (case insight_steps env analysis of
        Done insights \<Rightarrow> insights
      | Threw insights \<Rightarrow> insights @ [fallback_note])"

section \<open>Competitor analysis\<close>

text \<open>\<^verbatim>\<open>.catch(e => ({ error: e.message }))\<close> on the promise of one call, and
  \<^verbatim>\<open>Promise.all\<close>, which rejects as soon as one of its promises does.\<close>

definition catch_error :: "thrown + json \<Rightarrow> thrown + json" where
  "catch_error r = (case r of Inl e \<Rightarrow> Inr (JObj [(''error'', JStr (message e))]) | Inr v \<Rightarrow> Inr v)"

fun Promise_all :: "(thrown + json) list \<Rightarrow> thrown + json list" where
  "Promise_all [] = Inr []"
| "Promise_all (r # rs) =
     (case r of
        Inl e \<Rightarrow> Inl e
      | Inr v \<Rightarrow> (case Promise_all rs of Inl e \<Rightarrow> Inl e | Inr vs \<Rightarrow> Inr (v # vs)))"

text \<open>Array destructuring \<^verbatim>\<open>[a, b, c] = values\<close>: a missing position is \<^verbatim>\<open>undefined\<close>.\<close>

definition element :: "json list \<Rightarrow> nat \<Rightarrow> json" where
  "element vs i = (case nth_opt vs i of Some v \<Rightarrow> v | None \<Rightarrow> JUndefined)"

text \<open>The assignment \<^verbatim>\<open>analysis.p = v\<close>.\<close>

fun set_field :: "string \<Rightarrow> json \<Rightarrow> json \<Rightarrow> json" where
  "set_field p v (JObj kvs) = JObj (AList.update p v kvs)"
| "set_field p v a = a"

definition no_options :: options where
  "no_options = \<lparr>locale_opt = None, engine = None, limit = None, scope = None, sort = None,
     filter_opt = None, sourceScope = None, metrics = None, start = None, end_opt = None,
     include_keyword_analysis = None\<rparr>"

text \<open>The three guarded calls for one site, numbered \<open>k\<close>, \<open>k + 1\<close>, \<open>k + 2\<close>.\<close>

definition site_batch :: "js_env \<Rightarrow> remote \<Rightarrow> MozApiClient \<Rightarrow> nat \<Rightarrow> string \<Rightarrow> string \<Rightarrow> thrown + json list" where
  "site_batch env rm c k site loc =
     Promise_all
       [catch_error (getSiteMetrics env rm c k site),
        catch_error (getSiteBrandAuthority env rm c (k + 1) site),
        catch_error (getSiteRankingKeywords env rm c (k + 2) site
                       (Some (no_options\<lparr>locale_opt := Some loc, limit := Some 100\<rparr>)))]"

definition keyword_batch :: "js_env \<Rightarrow> remote \<Rightarrow> MozApiClient \<Rightarrow> nat \<Rightarrow> string \<Rightarrow> string \<Rightarrow> thrown + json list" where
  "keyword_batch env rm c k targetKeyword loc =
     Promise_all
       [catch_error (getKeywordMetrics env rm c k targetKeyword
                       (Some (no_options\<lparr>locale_opt := Some loc\<rparr>))),
        catch_error (getKeywordDifficulty env rm c (k + 1) targetKeyword
                       (Some (no_options\<lparr>locale_opt := Some loc\<rparr>))),
        catch_error (getKeywordVolume env rm c (k + 2) targetKeyword
                       (Some (no_options\<lparr>locale_opt := Some loc\<rparr>))),
        catch_error (getKeywordSearchIntent env rm c (k + 3) targetKeyword
                       (Some (no_options\<lparr>locale_opt := Some loc\<rparr>)))]"

text \<open>One iteration of the loop over the competitors: the entry pushed onto
  \<^verbatim>\<open>analysis.competitor_data\<close>, by the \<^verbatim>\<open>try\<close> block or by its \<^verbatim>\<open>catch\<close>.\<close>

definition competitor_entry :: "js_env \<Rightarrow> remote \<Rightarrow> MozApiClient \<Rightarrow> nat \<Rightarrow> string \<Rightarrow> string \<Rightarrow> json" where
  "competitor_entry env rm c k competitor loc =
     (case site_batch env rm c k competitor loc of
        Inr values \<Rightarrow>
          JObj [(''site'', JStr competitor),
                (''site_metrics'', element values 0),
                (''brand_authority'', element values 1),
                (''ranking_keywords'', element values 2)]
      | Inl e \<Rightarrow>
          JObj [(''site'', JStr competitor),
                (''error'', JStr (''Failed to analyze: '' @ String_of_thrown e))])"

fun analyze_competitors :: "js_env \<Rightarrow> remote \<Rightarrow> MozApiClient \<Rightarrow> string \<Rightarrow> nat \<Rightarrow> string list \<Rightarrow> json list \<Rightarrow> json list" where
  "analyze_competitors env rm c loc k [] competitor_data = competitor_data"
| "analyze_competitors env rm c loc k (competitor # rest) competitor_data =
     analyze_competitors env rm c loc (k + 3) rest
       (competitor_data @ [competitor_entry env rm c k competitor loc])"

definition competitor_identification_guidance :: json where
  "competitor_identification_guidance =
     JObj [(''message'', JStr ''No competitors were specified. To find potential competitors, you can:''),
           (''suggestions'', JArr
              [JStr ''1. Look at the ranking keywords data above and see which sites rank for similar keywords'',
               JStr ''2. Search for your target keyword in Google and see which sites appear in top results'',
               JStr ''3. Use industry knowledge to identify known competitors'',
               JStr ''4. Once you identify potential competitors, run this analysis again with competitor_sites parameter'']),
           (''note'', JStr ''Moz API does not automatically identify competitors - you need to specify them manually'')]"

text \<open>
  The body of the outer \<^verbatim>\<open>try\<close> block.  \<open>now\<close> is \<^verbatim>\<open>new Date().toISOString()\<close>; the
  calls are numbered from \<open>k\<close> in the order in which they are issued.
\<close>

definition analysis_try :: "js_env \<Rightarrow> remote \<Rightarrow> string \<Rightarrow> MozApiClient \<Rightarrow> nat \<Rightarrow> string \<Rightarrow> string list \<Rightarrow> string \<Rightarrow> string \<Rightarrow> bool \<Rightarrow> thrown + json" where
  "analysis_try env rm now c k primarySite competitorSites targetKeyword loc includeKeywordAnalysis =
     (let analysis0 = JObj
            [(''primary_site'', JStr primarySite),
             (''target_keyword'', JStr targetKeyword),
             (''locale'', JStr loc),
             (''analysis_timestamp'', JStr now),
             (''primary_site_data'', JObj []),
             (''competitor_data'', JArr []),
             (''keyword_analysis'', JObj []),
             (''insights'', JArr [])]
      in case site_batch env rm c k primarySite loc of
           Inl e \<Rightarrow> Inl e
         | Inr values \<Rightarrow>
             (let analysis1 = set_field ''primary_site_data''
                    (JObj [(''site_metrics'', element values 0),
                           (''brand_authority'', element values 1),
                           (''ranking_keywords'', element values 2)]) analysis0;
                  analysis2 =
                    (if length competitorSites > 0
                     then set_field ''competitor_data''
                            (JArr (analyze_competitors env rm c loc (k + 3) competitorSites [])) analysis1
                     else analysis1);
                  k2 = k + 3 + 3 * length competitorSites
              in case (if includeKeywordAnalysis
                       then (case keyword_batch env rm c k2 targetKeyword loc of
                               Inl e \<Rightarrow> Inl e
                             | Inr kvalues \<Rightarrow>
                                 Inr (set_field ''keyword_analysis''
                                        (JObj [(''keyword'', JStr targetKeyword),
                                               (''metrics'', element kvalues 0),
                                               (''difficulty'', element kvalues 1),
                                               (''volume'', element kvalues 2),
                                               (''search_intent'', element kvalues 3)]) analysis2))
                       else Inr analysis2) of
                   Inl e \<Rightarrow> Inl e
                 | Inr analysis3 \<Rightarrow>
                     (let analysis4 = set_field ''insights''
                            (JArr (map JStr (generateCompetitorInsights env analysis3))) analysis3
                      in Inr (if length competitorSites = 0
                              then set_field ''competitor_identification_guidance''
                                     competitor_identification_guidance analysis4
                              else analysis4))))"

definition getCompetitorAnalysis :: "js_env \<Rightarrow> remote \<Rightarrow> string \<Rightarrow> MozApiClient \<Rightarrow> nat \<Rightarrow> string \<Rightarrow> string list option \<Rightarrow> string \<Rightarrow> options option \<Rightarrow> thrown + json" where
  "getCompetitorAnalysis env rm now c k primarySite competitorSites targetKeyword os =
     (case analysis_try env rm now c k primarySite
             (case competitorSites of None \<Rightarrow> [] | Some sites \<Rightarrow> sites)
             targetKeyword
             (or_string (opt_field locale_opt os) ''en-US'')
             (opt_field include_keyword_analysis os \<noteq> Some False) of
        Inl e \<Rightarrow> Inl (Error (''Competitor analysis failed: '' @ message e))
      | Inr analysis \<Rightarrow> Inr analysis)"

section \<open>Notions used by the properties\<close>

text \<open>The value a guarded call leaves in its slot: the result, or the marker
  \<^verbatim>\<open>{error: message}\<close> when the call failed.\<close>

definition settled_slot :: "thrown + json \<Rightarrow> json" where
  "settled_slot r = (case r of Inr v \<Rightarrow> v | Inl e \<Rightarrow> JObj [(''error'', JStr (message e))])"

text \<open>\<^verbatim>\<open>p in v\<close> for an object.\<close>

fun has_field :: "json \<Rightarrow> string \<Rightarrow> bool" where
  "has_field (JObj kvs) p = (map_of kvs p \<noteq> None)"
| "has_field v p = False"

definition returned_report :: "thrown + json \<Rightarrow> json" where
  "returned_report r = (case r of Inr analysis \<Rightarrow> analysis | Inl e \<Rightarrow> JUndefined)"

text \<open>The slots of one site whose three calls are numbered from \<open>k\<close>, and the slots of
  the keyword analysis whose four calls are numbered from \<open>k\<close>.\<close>

definition site_slots :: "js_env \<Rightarrow> remote \<Rightarrow> MozApiClient \<Rightarrow> string \<Rightarrow> nat \<Rightarrow> string \<Rightarrow> (string \<times> json) list" where
  "site_slots env rm c loc k site =
     [(''site_metrics'', settled_slot (getSiteMetrics env rm c k site)),
      (''brand_authority'', settled_slot (getSiteBrandAuthority env rm c (k + 1) site)),
      (''ranking_keywords'', settled_slot (getSiteRankingKeywords env rm c (k + 2) site
          (Some (no_options\<lparr>locale_opt := Some loc, limit := Some 100\<rparr>))))]"

definition keyword_slots :: "js_env \<Rightarrow> remote \<Rightarrow> MozApiClient \<Rightarrow> string \<Rightarrow> nat \<Rightarrow> string \<Rightarrow> (string \<times> json) list" where
  "keyword_slots env rm c loc k targetKeyword =
     [(''metrics'', settled_slot (getKeywordMetrics env rm c k targetKeyword
          (Some (no_options\<lparr>locale_opt := Some loc\<rparr>)))),
      (''difficulty'', settled_slot (getKeywordDifficulty env rm c (k + 1) targetKeyword
          (Some (no_options\<lparr>locale_opt := Some loc\<rparr>)))),
      (''volume'', settled_slot (getKeywordVolume env rm c (k + 2) targetKeyword
          (Some (no_options\<lparr>locale_opt := Some loc\<rparr>)))),
      (''search_intent'', settled_slot (getKeywordSearchIntent env rm c (k + 3) targetKeyword
          (Some (no_options\<lparr>locale_opt := Some loc\<rparr>))))]"

text \<open>The expected competitor list of an analysis whose first call is numbered \<open>k\<close>: the
  \<open>i\<close>-th site of the list, with the slots of the calls \<open>k + 3 + 3 * i\<close> and the two
  after it.\<close>

definition competitor_entries :: "js_env \<Rightarrow> remote \<Rightarrow> MozApiClient \<Rightarrow> string \<Rightarrow> nat \<Rightarrow> string list \<Rightarrow> json list" where
  "competitor_entries env rm c loc k sites =
     map (\<lambda>(i, site). JObj ((''site'', JStr site) # site_slots env rm c loc (k + 3 + 3 * i) site))
       (enumerate 0 sites)"

text \<open>The report as it stands when its \<^verbatim>\<open>insights\<close> member holds \<open>insights\<close>, before the
  guidance block is added.\<close>

definition assembled :: "js_env \<Rightarrow> remote \<Rightarrow> string \<Rightarrow> MozApiClient \<Rightarrow> nat \<Rightarrow> string \<Rightarrow> string list \<Rightarrow> string \<Rightarrow> string \<Rightarrow> bool \<Rightarrow> json \<Rightarrow> (string \<times> json) list" where
  "assembled env rm now c k primarySite sites targetKeyword loc inc insights =
     [(''primary_site'', JStr primarySite),
      (''target_keyword'', JStr targetKeyword),
      (''locale'', JStr loc),
      (''analysis_timestamp'', JStr now),
      (''primary_site_data'', JObj (site_slots env rm c loc k primarySite)),
      (''competitor_data'', JArr (competitor_entries env rm c loc k sites)),
      (''keyword_analysis'',
         (if inc then JObj ((''keyword'', JStr targetKeyword)
                         # keyword_slots env rm c loc (k + 3 + 3 * length sites) targetKeyword)
          else JObj [])),
      (''insights'', insights)]"

text \<open>The kinds of insight lines, told apart by how they begin.\<close>

definition is_brand_line :: "string \<Rightarrow> bool" where
  "is_brand_line l = prefix ''Primary site brand authority: '' l"

definition is_difficulty_line :: "string \<Rightarrow> bool" where
  "is_difficulty_line l = prefix ''Target keyword \"'' l"

definition is_volume_line :: "string \<Rightarrow> bool" where
  "is_volume_line l = prefix ''Target keyword monthly search volume: '' l"

definition is_landscape_line :: "string \<Rightarrow> bool" where
  "is_landscape_line l = prefix ''Competitive landscape: '' l"

definition is_ranking_line :: "string \<Rightarrow> bool" where
  "is_ranking_line l =
     (prefix ''Primary site ranks for '' l \<or> prefix ''Primary site does not appear to rank'' l)"

definition ranked_line :: "string \<Rightarrow> string \<Rightarrow> string" where
  "ranked_line t r = ''Primary site ranks for target keyword \"'' @ t @ ''\" at position '' @ r"

definition absence_line :: "string \<Rightarrow> string" where
  "absence_line t = ''Primary site does not appear to rank in top 100 for target keyword \"'' @ t @ ''\"''"

definition ranks_count_line :: "nat \<Rightarrow> string" where
  "ranks_count_line n = ''Primary site ranks for '' @ show_int (int n) @ '' keywords (showing up to 100)''"

text \<open>The lines pushed by a block, whether it threw or not, and a block's outcome put
  after lines pushed earlier.\<close>

fun steps_lines :: "steps \<Rightarrow> string list" where
  "steps_lines (Done insights) = insights"
| "steps_lines (Threw insights) = insights"

fun prepend :: "string list \<Rightarrow> steps \<Rightarrow> steps" where
  "prepend insights (Done xs) = Done (insights @ xs)"
| "prepend insights (Threw xs) = Threw (insights @ xs)"

text \<open>A ranking-keyword entry matches the target when its keyword is a non-empty string
  that contains the target, both put in lower case by the runtime.  An entry is plain when it is neither
  \<^verbatim>\<open>null\<close> nor \<^verbatim>\<open>undefined\<close> and its keyword is a string or falsy.\<close>

definition entry_matches :: "js_env \<Rightarrow> string \<Rightarrow> json \<Rightarrow> bool" where
  "entry_matches env t entry =
     (case own_prop entry ''keyword'' of
        JStr s \<Rightarrow> s \<noteq> [] \<and> sublist (toLowerCase env t) (toLowerCase env s)
      | _ \<Rightarrow> False)"

definition plain_entry :: "json \<Rightarrow> bool" where
  "plain_entry entry =
     (\<not> nullish entry \<and>
      (case own_prop entry ''keyword'' of JStr s \<Rightarrow> True | v \<Rightarrow> \<not> truthy v))"

text \<open>The brand authority read from a competitor entry; a brand authority is known when
  it is a number other than zero; a value is numeric or absent when it is a number or
  falsy.  \<open>count_stronger\<close> and \<open>count_weaker\<close> count the competitors whose known brand
  authority is above or below the known value of the primary site.\<close>

definition competitor_brand_authority :: "json \<Rightarrow> json" where
  "competitor_brand_authority competitor =
     opt_prop (opt_prop (own_prop competitor ''brand_authority'') ''result'') ''brand_authority''"

fun known :: "json \<Rightarrow> bool" where
  "known (JNum n) = (n \<noteq> 0)"
| "known v = False"

fun numeric_or_absent :: "json \<Rightarrow> bool" where
  "numeric_or_absent (JNum n) = True"
| "numeric_or_absent v = (\<not> truthy v)"

fun exceeds :: "json \<Rightarrow> json \<Rightarrow> bool" where
  "exceeds (JNum x) (JNum y) = (x \<noteq> 0 \<and> y \<noteq> 0 \<and> y < x)"
| "exceeds a b = False"

definition count_stronger :: "json \<Rightarrow> json list \<Rightarrow> nat" where
  "count_stronger primaryBA competitors =
     length (filter (\<lambda>competitor. exceeds (competitor_brand_authority competitor) primaryBA) competitors)"

definition count_weaker :: "json \<Rightarrow> json list \<Rightarrow> nat" where
  "count_weaker primaryBA competitors =
     length (filter (\<lambda>competitor. exceeds primaryBA (competitor_brand_authority competitor)) competitors)"

definition comparable_competitor :: "json \<Rightarrow> bool" where
  "comparable_competitor competitor =
     (\<not> nullish competitor \<and> numeric_or_absent (competitor_brand_authority competitor))"

text \<open>The outcome of the five blocks in sequence, from the outcome of each on its own.\<close>

fun in_sequence :: "steps list \<Rightarrow> steps" where
  "in_sequence [] = Done []"
| "in_sequence (Done xs # rest) = prepend xs (in_sequence rest)"
| "in_sequence (Threw xs # rest) = Threw xs"

subsection \<open>Sample inputs\<close>

text \<open>A lower-casing that folds the ASCII letters and the letters of the Latin-1
  supplement (the two-byte characters \<^verbatim>\<open>C3 80\<close> to \<^verbatim>\<open>C3 9E\<close> but the multiplication sign
  \<^verbatim>\<open>C3 97\<close>), as the runtime does on them.\<close>

definition latin1_upper :: "char \<Rightarrow> bool" where
  "latin1_upper d = (128 \<le> (of_char d :: nat) \<and> (of_char d :: nat) \<le> 158 \<and> (of_char d :: nat) \<noteq> 151)"

fun latin1_toLowerCase :: "string \<Rightarrow> string" where
  "latin1_toLowerCase (c # d # cs) =
     (if c = CHR 0xC3 \<and> latin1_upper d
      then c # char_of ((of_char d :: nat) + 32) # latin1_toLowerCase cs
      else toLowerCase_char c # latin1_toLowerCase (d # cs))"
| "latin1_toLowerCase [c] = [toLowerCase_char c]"
| "latin1_toLowerCase [] = []"

text \<open>A rendering of values as JSON text, for values without \<^verbatim>\<open>undefined\<close> members and
  without characters to escape.\<close>

fun sample_stringify :: "json \<Rightarrow> string"
  and stringify_elements :: "json list \<Rightarrow> string"
  and stringify_members :: "(string \<times> json) list \<Rightarrow> string" where
  "sample_stringify JUndefined = ''null''"
| "sample_stringify JNull = ''null''"
| "sample_stringify (JBool b) = (if b then ''true'' else ''false'')"
| "sample_stringify (JNum n) = show_int n"
| "sample_stringify (JStr s) = [CHR 0x22] @ s @ [CHR 0x22]"
| "sample_stringify (JArr xs) = ''['' @ stringify_elements xs @ '']''"
| "sample_stringify (JObj kvs) = ''{'' @ stringify_members kvs @ ''}''"
| "stringify_elements [] = []"
| "stringify_elements [x] = sample_stringify x"
| "stringify_elements (x # y # xs) = sample_stringify x @ '','' @ stringify_elements (y # xs)"
| "stringify_members [] = []"
| "stringify_members [(p, v)] = [CHR 0x22] @ p @ [CHR 0x22] @ '':'' @ sample_stringify v"
| "stringify_members ((p, v) # q # kvs) =
     [CHR 0x22] @ p @ [CHR 0x22] @ '':'' @ sample_stringify v @ '','' @ stringify_members (q # kvs)"

definition sample_env :: js_env where
  "sample_env = \<lparr>coerce_ge = (\<lambda>v k. Some False), coerce_gt = (\<lambda>a b. Some False),
     coerce_lt = (\<lambda>a b. Some False), coerce_string = (\<lambda>v. None),
     number_toLocaleString = show_int, coerce_toLocaleString = (\<lambda>v. None),
     JSON_stringify = sample_stringify, unicode_toLowerCase = latin1_toLowerCase\<rparr>"

definition sample_client :: MozApiClient where
  "sample_client = \<lparr>apiToken = ''token'', accessId = None, secretKey = None\<rparr>"

text \<open>A transport that answers every call with the same body.\<close>

definition constant_remote :: "json \<Rightarrow> remote" where
  "constant_remote body = \<lparr>uuidv4 = digits, post = (\<lambda>k headers request. Resolved body)\<rparr>"

text \<open>A transport on which every exchange is rejected by the HTTP library, with the
  library's message and the parsed body of the response.\<close>

definition rejecting_remote :: "string \<Rightarrow> json \<Rightarrow> remote" where
  "rejecting_remote m body =
     \<lparr>uuidv4 = digits, post = (\<lambda>k headers request. Rejected (AxiosError m body))\<rparr>"

definition error_body :: json where
  "error_body = JObj [(''error'', JObj [(''code'', JNum 7), (''message'', JStr ''bad'')])]"

definition result_body :: json where
  "result_body = JObj [(''result'', JObj [(''a'', JNum 1)])]"

text \<open>A transport that rejects every call about the site \<open>down\<close> and otherwise answers
  with the brand authority \<open>ba\<close>, the ranking keywords \<open>kws\<close>, or \<^verbatim>\<open>{a: 1}\<close>.\<close>

definition failing_site_remote :: "string \<Rightarrow> json \<Rightarrow> json \<Rightarrow> remote" where
  "failing_site_remote down ba kws =
     \<lparr>uuidv4 = digits,
      post = (\<lambda>k headers request.
        if own_prop (own_prop (own_prop (params request) ''data'') ''site_query'') ''query'' = JStr down
           \<or> own_prop (own_prop (own_prop (params request) ''data'') ''target_query'') ''query'' = JStr down
        then Rejected (AxiosError ''timeout'' JUndefined)
        else if rpc_method request = ''data.site.metrics.brand.authority.fetch''
        then Resolved (JObj [(''result'', JObj [(''result'', JObj [(''brand_authority'', ba)])])])
        else if rpc_method request = ''data.site.ranking.keywords.list''
        then Resolved (JObj [(''result'', JObj [(''result'', kws)])])
        else Resolved (JObj [(''result'', JObj [(''a'', JNum 1)])]))\<rparr>"

text \<open>A transport without failures: it answers the brand-authority call for a site with
  \<open>ba site\<close>, the ranking-keywords, difficulty and volume calls with the given payloads,
  and every other call with \<^verbatim>\<open>{a: 1}\<close>.\<close>

definition scored_remote :: "(string \<Rightarrow> json) \<Rightarrow> json \<Rightarrow> json \<Rightarrow> json \<Rightarrow> remote" where
  "scored_remote ba kws difficulty volume =
     \<lparr>uuidv4 = digits,
      post = (\<lambda>k headers request.
        if rpc_method request = ''data.site.metrics.brand.authority.fetch''
        then (case own_prop (own_prop (own_prop (params request) ''data'') ''site_query'') ''query'' of
                JStr site \<Rightarrow>
                  Resolved (JObj [(''result'', JObj [(''result'', JObj [(''brand_authority'', ba site)])])])
              | _ \<Rightarrow> Resolved JNull)
        else if rpc_method request = ''data.site.ranking.keywords.list''
        then Resolved (JObj [(''result'', JObj [(''result'', kws)])])
        else if rpc_method request = ''data.keyword.metrics.difficulty.fetch''
        then Resolved (JObj [(''result'', JObj [(''result'', JObj [(''difficulty'', difficulty)])])])
        else if rpc_method request = ''data.keyword.metrics.volume.fetch''
        then Resolved (JObj [(''result'', JObj [(''result'', JObj [(''volume'', volume)])])])
        else Resolved (JObj [(''result'', JObj [(''a'', JNum 1)])]))\<rparr>"

definition flat_authority :: "string \<Rightarrow> json" where
  "flat_authority site = JNum 50"

definition zero_authority :: "string \<Rightarrow> json" where
  "zero_authority site = JNum 0"

definition sample_authority :: "string \<Rightarrow> json" where
  "sample_authority site =
     (if site = ''c1.com'' then JNum 80 else if site = ''c3.com'' then JNum 20 else JNum 50)"

definition sample_keywords :: json where
  "sample_keywords = JArr [JObj [(''keyword'', JStr ''Best SEO Tools 2024''), (''rank'', JNum 3)]]"

definition zero_rank_keywords :: json where
  "zero_rank_keywords = JArr [JObj [(''keyword'', JStr ''Best SEO Tools 2024''), (''rank'', JNum 0)]]"

text \<open>The keywords \<^verbatim>\<open>ECOLE\<close> and \<^verbatim>\<open>ecole\<close> with an acute accent on the first letter
  (\<^verbatim>\<open>C3 89\<close> in upper case, \<^verbatim>\<open>C3 A9\<close> in lower case).\<close>

definition upper_ecole :: string where
  "upper_ecole = [CHR 0xC3, CHR 0x89] @ ''COLE''"

definition lower_ecole :: string where
  "lower_ecole = [CHR 0xC3, CHR 0xA9] @ ''cole''"

definition accent_keywords :: json where
  "accent_keywords = JArr [JObj [(''keyword'', JStr upper_ecole), (''rank'', JNum 2)],
                           JObj [(''keyword'', JStr (lower_ecole @ '' x'')), (''rank'', JNum 0)]]"

definition sample_now :: string where
  "sample_now = ''2024-01-01T00:00:00.000Z''"

text \<open>Reports returned by the analysis over these transports.\<close>

definition matched_report :: json where
  "matched_report = returned_report (getCompetitorAnalysis sample_env
     (scored_remote sample_authority sample_keywords (JNum 45) (JNum 900)) sample_now sample_client 0
     ''example.com'' (Some [''c1.com'', ''c2.com'', ''c3.com'']) ''seo tools'' None)"

definition unmatched_report :: json where
  "unmatched_report = returned_report (getCompetitorAnalysis sample_env
     (scored_remote sample_authority sample_keywords (JNum 45) (JNum 900)) sample_now sample_client 0
     ''example.com'' (Some [''c1.com'', ''c2.com'', ''c3.com'']) ''zebra'' None)"

definition errored_report :: json where
  "errored_report = returned_report (getCompetitorAnalysis sample_env
     (failing_site_remote ''example.com'' (JNum 50) sample_keywords) sample_now sample_client 0
     ''example.com'' (Some [''c2.com'']) ''seo tools'' None)"

definition zero_report :: json where
  "zero_report = returned_report (getCompetitorAnalysis sample_env
     (scored_remote zero_authority zero_rank_keywords (JNum 0) (JNum 0)) sample_now sample_client 0
     ''example.com'' None ''seo tools'' None)"

definition accent_report :: json where
  "accent_report = returned_report (getCompetitorAnalysis sample_env
     (scored_remote sample_authority accent_keywords (JNum 45) (JNum 900)) sample_now sample_client 0
     ''example.com'' None lower_ecole None)"

definition equal_report :: json where
  "equal_report = returned_report (getCompetitorAnalysis sample_env
     (scored_remote flat_authority (JArr []) (JNum 45) (JNum 900)) sample_now sample_client 0
     ''example.com'' (Some [''c2.com'']) ''seo tools'' None)"

fun elements :: "json \<Rightarrow> json list" where
  "elements (JArr xs) = xs"
| "elements v = []"

section \<open>Properties of the client\<close>

subsection \<open>Authentication mode\<close>

lemma split_colon_no_colon: "CHR '':'' \<notin> set b \<Longrightarrow> split_colon b = [b]"
  by (induction b) auto

lemma split_colon_first:
  "CHR '':'' \<notin> set a \<Longrightarrow> split_colon (a @ CHR '':'' # b) = a # split_colon b"
  by (induction a) auto

lemma split_colon_neq_Nil: "split_colon d \<noteq> []"
  by (induction d) (auto split: list.splits)

lemma split_colon_two: "CHR '':'' \<in> set d \<Longrightarrow> \<exists>x y r. split_colon d = x # y # r"
proof (induction d)
  case Nil
  then show ?case by simp
next
  case (Cons c d)
  show ?case
  proof (cases "c = CHR '':''")
    case True
    then show ?thesis
      using split_colon_neq_Nil [of d] by (cases "split_colon d") auto
  next
    case False
    with Cons obtain x y r where "split_colon d = x # y # r"
      by auto
    with False show ?thesis
      by simp
  qed
qed

text \<open>
  C2, as stated, fails: the credential \<^verbatim>\<open>YTpiOmM=\<close> decodes to \<^verbatim>\<open>a:b:c\<close>, which has two
  colons, and the constructor still stores an access id and a secret key and announces
  access-id/secret-key authentication.
\<close>

theorem new_MozApiClient_two_colons:
  "base64_decode ''YTpiOmM='' = Some ''a:b:c''
   \<and> count_list ''a:b:c'' CHR '':'' = 2
   \<and> new_MozApiClient base64_decode ''YTpiOmM=''
       = (\<lparr>apiToken = ''YTpiOmM='', accessId = Some ''a'', secretKey = Some ''b''\<rparr>, log_V2)"
  by code_simp

text \<open>
  C2, amended: for every credential string and every decoder the constructor returns a
  client (it cannot raise).  It stores an access id and a secret key, and announces that
  mode, exactly when decoding succeeds and the decoded text contains at least one colon;
  otherwise it stores neither and announces token authentication.  The raw token is kept
  in both modes.  When the decoded text has exactly one colon, the access id is the text
  before it and the secret key the text after it.
\<close>

theorem new_MozApiClient_auth_mode:
  "snd (new_MozApiClient decode token) =
      (if (\<exists>d. decode token = Some d \<and> CHR '':'' \<in> set d) then log_V2 else log_V3)
   \<and> ((accessId (fst (new_MozApiClient decode token)) \<noteq> None
        \<and> secretKey (fst (new_MozApiClient decode token)) \<noteq> None)
       = (\<exists>d. decode token = Some d \<and> CHR '':'' \<in> set d))
   \<and> ((accessId (fst (new_MozApiClient decode token)) = None
        \<and> secretKey (fst (new_MozApiClient decode token)) = None)
       = (\<not> (\<exists>d. decode token = Some d \<and> CHR '':'' \<in> set d)))
   \<and> apiToken (fst (new_MozApiClient decode token)) = token
   \<and> (decode token = Some (a @ CHR '':'' # b) \<longrightarrow> CHR '':'' \<notin> set a \<longrightarrow> CHR '':'' \<notin> set b \<longrightarrow>
        accessId (fst (new_MozApiClient decode token)) = Some a
        \<and> secretKey (fst (new_MozApiClient decode token)) = Some b)"
proof (cases "decode token")
  case None
  then show ?thesis
    by (simp add: new_MozApiClient_def)
next
  case (Some d)
  show ?thesis
  proof (cases "CHR '':'' \<in> set d")
    case False
    with Some show ?thesis
      by (auto simp add: new_MozApiClient_def)
  next
    case True
    then obtain x y r where xy: "split_colon d = x # y # r"
      using split_colon_two by blast
    have one: "d = a @ CHR '':'' # b \<Longrightarrow> CHR '':'' \<notin> set a \<Longrightarrow> CHR '':'' \<notin> set b \<Longrightarrow> x = a \<and> y = b"
      using xy by (simp add: split_colon_first split_colon_no_colon)
    from Some True xy one show ?thesis
      by (auto simp add: new_MozApiClient_def Let_def)
  qed
qed

text \<open>The credential \<^verbatim>\<open>YTpi\<close> decodes to \<^verbatim>\<open>a:b\<close>.\<close>

theorem new_MozApiClient_auth_mode_witness:
  "base64_decode ''YTpi'' = Some (''a'' @ CHR '':'' # ''b'')
   \<and> CHR '':'' \<notin> set ''a'' \<and> CHR '':'' \<notin> set ''b''
   \<and> accessId (fst (new_MozApiClient base64_decode ''YTpi'')) = Some ''a''
   \<and> secretKey (fst (new_MozApiClient base64_decode ''YTpi'')) = Some ''b''"
proof -
  have d: "base64_decode ''YTpi'' = Some (''a'' @ CHR '':'' # ''b'')"
    by code_simp
  from new_MozApiClient_auth_mode [of base64_decode "''YTpi''" "''a''" "''b''"] d
  show ?thesis
    by simp
qed

subsection \<open>Unwrapping a response\<close>

text \<open>
  C3, as stated, fails: a response whose parsed body is the error envelope
  \<^verbatim>\<open>{error: {code: 7, message: "bad"}}\<close> and whose status is 400 is rejected by the HTTP
  library, and \<open>sendRequest\<close> then fails with a network error that quotes the body, not
  with the error of the envelope.
\<close>

theorem sendRequest_error_envelope_with_status_400:
  "post (rejecting_remote ''Request failed with status code 400'' error_body) 0
       (getAuthHeaders sample_client)
       (getSiteMetrics_request (rejecting_remote ''Request failed with status code 400'' error_body) 0
          ''example.com'')
     = Rejected (AxiosError ''Request failed with status code 400''
         (JObj [(''error'', JObj [(''code'', JNum 7), (''message'', JStr ''bad'')])]))
   \<and> getSiteMetrics sample_env (rejecting_remote ''Request failed with status code 400'' error_body)
       sample_client 0 ''example.com''
     = Inl (Error (''Network Error: Request failed with status code 400 - {'' @ [CHR 0x22] @ ''error''
                   @ [CHR 0x22] @ '':{'' @ [CHR 0x22] @ ''code'' @ [CHR 0x22] @ '':7,'' @ [CHR 0x22]
                   @ ''message'' @ [CHR 0x22] @ '':'' @ [CHR 0x22] @ ''bad'' @ [CHR 0x22] @ ''}}''))
   \<and> getSiteMetrics sample_env (rejecting_remote ''Request failed with status code 400'' error_body)
       sample_client 0 ''example.com''
     \<noteq> Inl (Error ''Moz API Error: bad (Code: 7)'')"
  by code_simp

text \<open>
  C3, amended: for every request, when the HTTP library delivers a parsed body (a response
  with a success status), \<open>sendRequest\<close> fails on an error envelope with a plain error
  whose message text is \<^verbatim>\<open>Moz API Error: <message> (Code: <code>)\<close>, and otherwise (no
  \<^verbatim>\<open>error\<close> member, or a falsy one) returns the body's \<^verbatim>\<open>result\<close> member as it is; when
  the HTTP library rejects the exchange (as it does for any other status, whatever the
  body), \<open>sendRequest\<close> fails with a plain error whose message text is
  \<^verbatim>\<open>Network Error: <message> - <body as JSON text, or No response data>\<close>.
\<close>

theorem sendRequest_unwraps_response:
  "(post rm k (getAuthHeaders c) request = Resolved (JObj body)
     \<and> map_of body ''error'' = Some (JObj err) \<and> map_of err ''message'' = Some (JStr m)
     \<and> map_of err ''code'' = Some (JNum code) \<longrightarrow>
      sendRequest env rm c k request
        = Inl (Error (''Moz API Error: '' @ m @ '' (Code: '' @ show_int code @ '')'')))
   \<and> (post rm k (getAuthHeaders c) request = Resolved (JObj body)
       \<and> \<not> truthy (own_prop (JObj body) ''error'') \<longrightarrow>
        sendRequest env rm c k request = Inr (own_prop (JObj body) ''result''))
   \<and> (post rm k (getAuthHeaders c) request = Rejected (AxiosError msg d) \<longrightarrow>
        sendRequest env rm c k request
          = Inl (Error (''Network Error: '' @ msg @ '' - '' @
                        (if truthy d then JSON_stringify env d else ''No response data''))))"
  by (simp add: sendRequest_def sendRequest_try_def get_prop_def api_error_message_def)

text \<open>The two transports of the specification, one returning
  \<^verbatim>\<open>{error: {code: 7, message: "bad"}}\<close> and one returning \<^verbatim>\<open>{result: {a: 1}}\<close>, under
  every wrapper, and a transport that rejects every exchange without a body.\<close>

theorem sendRequest_unwraps_response_witness:
  "post (constant_remote error_body) 0 (getAuthHeaders sample_client)
       (getSiteMetrics_request (constant_remote error_body) 0 ''example.com'')
     = Resolved (JObj [(''error'', JObj [(''code'', JNum 7), (''message'', JStr ''bad'')])])
   \<and> post (constant_remote result_body) 0 (getAuthHeaders sample_client)
       (getSiteMetrics_request (constant_remote result_body) 0 ''example.com'')
     = Resolved (JObj [(''result'', JObj [(''a'', JNum 1)])])
   \<and> post (rejecting_remote ''timeout'' JUndefined) 0 (getAuthHeaders sample_client)
       (getSiteMetrics_request (rejecting_remote ''timeout'' JUndefined) 0 ''example.com'')
     = Rejected (AxiosError ''timeout'' JUndefined)
   \<and> getSiteMetrics sample_env (rejecting_remote ''timeout'' JUndefined) sample_client 0 ''example.com''
     = Inl (Error ''Network Error: timeout - No response data'')
   \<and> getQuota sample_env (constant_remote result_body) sample_client 0 = Inr (JObj [(''a'', JNum 1)])
   \<and> getKeywordSearchIntent sample_env (constant_remote result_body) sample_client 0 ''seo'' None = Inr (JObj [(''a'', JNum 1)])
   \<and> getKeywordSuggestions sample_env (constant_remote result_body) sample_client 0 ''seo'' None = Inr (JObj [(''a'', JNum 1)])
   \<and> getKeywordDifficulty sample_env (constant_remote result_body) sample_client 0 ''seo'' None = Inr (JObj [(''a'', JNum 1)])
   \<and> getKeywordVolume sample_env (constant_remote result_body) sample_client 0 ''seo'' None = Inr (JObj [(''a'', JNum 1)])
   \<and> getKeywordMetrics sample_env (constant_remote result_body) sample_client 0 ''seo'' None = Inr (JObj [(''a'', JNum 1)])
   \<and> getKeywordOpportunity sample_env (constant_remote result_body) sample_client 0 ''seo'' None = Inr (JObj [(''a'', JNum 1)])
   \<and> getKeywordPriority sample_env (constant_remote result_body) sample_client 0 ''seo'' None = Inr (JObj [(''a'', JNum 1)])
   \<and> getSiteBrandAuthority sample_env (constant_remote result_body) sample_client 0 ''example.com'' = Inr (JObj [(''a'', JNum 1)])
   \<and> getSiteMetrics sample_env (constant_remote result_body) sample_client 0 ''example.com'' = Inr (JObj [(''a'', JNum 1)])
   \<and> getSiteRankingKeywords sample_env (constant_remote result_body) sample_client 0 ''example.com'' None = Inr (JObj [(''a'', JNum 1)])
   \<and> getUrlMetrics sample_env (constant_remote result_body) sample_client 0 [''example.com''] None = Inr (JObj [(''a'', JNum 1)])
   \<and> getLinks sample_env (constant_remote result_body) sample_client 0 ''example.com'' None = Inr (JObj [(''a'', JNum 1)])
   \<and> getAnchorText sample_env (constant_remote result_body) sample_client 0 ''example.com'' None = Inr (JObj [(''a'', JNum 1)])
   \<and> getTopPages sample_env (constant_remote result_body) sample_client 0 ''example.com'' None = Inr (JObj [(''a'', JNum 1)])
   \<and> getLinkingDomains sample_env (constant_remote result_body) sample_client 0 ''example.com'' None = Inr (JObj [(''a'', JNum 1)])
   \<and> getGlobalTopPages sample_env (constant_remote result_body) sample_client 0 None = Inr (JObj [(''a'', JNum 1)])
   \<and> getGlobalTopDomains sample_env (constant_remote result_body) sample_client 0 None = Inr (JObj [(''a'', JNum 1)])
   \<and> getUsageData sample_env (constant_remote result_body) sample_client 0 None = Inr (JObj [(''a'', JNum 1)])
   \<and> getSiteMetricsMultiple sample_env (constant_remote result_body) sample_client 0 [''example.com''] = Inr (JObj [(''a'', JNum 1)])
   \<and> getSiteRankingKeywordsCount sample_env (constant_remote result_body) sample_client 0 ''example.com'' None = Inr (JObj [(''a'', JNum 1)])
   \<and> getQuota sample_env (constant_remote error_body) sample_client 0 = Inl (Error ''Moz API Error: bad (Code: 7)'')
   \<and> getKeywordSearchIntent sample_env (constant_remote error_body) sample_client 0 ''seo'' None = Inl (Error ''Moz API Error: bad (Code: 7)'')
   \<and> getKeywordSuggestions sample_env (constant_remote error_body) sample_client 0 ''seo'' None = Inl (Error ''Moz API Error: bad (Code: 7)'')
   \<and> getKeywordDifficulty sample_env (constant_remote error_body) sample_client 0 ''seo'' None = Inl (Error ''Moz API Error: bad (Code: 7)'')
   \<and> getKeywordVolume sample_env (constant_remote error_body) sample_client 0 ''seo'' None = Inl (Error ''Moz API Error: bad (Code: 7)'')
   \<and> getKeywordMetrics sample_env (constant_remote error_body) sample_client 0 ''seo'' None = Inl (Error ''Moz API Error: bad (Code: 7)'')
   \<and> getKeywordOpportunity sample_env (constant_remote error_body) sample_client 0 ''seo'' None = Inl (Error ''Moz API Error: bad (Code: 7)'')
   \<and> getKeywordPriority sample_env (constant_remote error_body) sample_client 0 ''seo'' None = Inl (Error ''Moz API Error: bad (Code: 7)'')
   \<and> getSiteBrandAuthority sample_env (constant_remote error_body) sample_client 0 ''example.com'' = Inl (Error ''Moz API Error: bad (Code: 7)'')
   \<and> getSiteMetrics sample_env (constant_remote error_body) sample_client 0 ''example.com'' = Inl (Error ''Moz API Error: bad (Code: 7)'')
   \<and> getSiteRankingKeywords sample_env (constant_remote error_body) sample_client 0 ''example.com'' None = Inl (Error ''Moz API Error: bad (Code: 7)'')
   \<and> getUrlMetrics sample_env (constant_remote error_body) sample_client 0 [''example.com''] None = Inl (Error ''Moz API Error: bad (Code: 7)'')
   \<and> getLinks sample_env (constant_remote error_body) sample_client 0 ''example.com'' None = Inl (Error ''Moz API Error: bad (Code: 7)'')
   \<and> getAnchorText sample_env (constant_remote error_body) sample_client 0 ''example.com'' None = Inl (Error ''Moz API Error: bad (Code: 7)'')
   \<and> getTopPages sample_env (constant_remote error_body) sample_client 0 ''example.com'' None = Inl (Error ''Moz API Error: bad (Code: 7)'')
   \<and> getLinkingDomains sample_env (constant_remote error_body) sample_client 0 ''example.com'' None = Inl (Error ''Moz API Error: bad (Code: 7)'')
   \<and> getGlobalTopPages sample_env (constant_remote error_body) sample_client 0 None = Inl (Error ''Moz API Error: bad (Code: 7)'')
   \<and> getGlobalTopDomains sample_env (constant_remote error_body) sample_client 0 None = Inl (Error ''Moz API Error: bad (Code: 7)'')
   \<and> getUsageData sample_env (constant_remote error_body) sample_client 0 None = Inl (Error ''Moz API Error: bad (Code: 7)'')
   \<and> getSiteMetricsMultiple sample_env (constant_remote error_body) sample_client 0 [''example.com''] = Inl (Error ''Moz API Error: bad (Code: 7)'')
   \<and> getSiteRankingKeywordsCount sample_env (constant_remote error_body) sample_client 0 ''example.com'' None = Inl (Error ''Moz API Error: bad (Code: 7)'')"
proof -
  let ?e = "constant_remote error_body" and ?r = "constant_remote result_body"
    and ?t = "rejecting_remote ''timeout'' JUndefined"
  have pe: "post ?e k (getAuthHeaders sample_client) request
      = Resolved (JObj [(''error'', JObj [(''code'', JNum 7), (''message'', JStr ''bad'')])])"
    for k request
    by (simp add: constant_remote_def error_body_def)
  have pr: "post ?r k (getAuthHeaders sample_client) request
      = Resolved (JObj [(''result'', JObj [(''a'', JNum 1)])])"
    for k request
    by (simp add: constant_remote_def result_body_def)
  have pt: "post ?t k (getAuthHeaders sample_client) request = Rejected (AxiosError ''timeout'' JUndefined)"
    for k request
    by (simp add: rejecting_remote_def)
  have seven: "show_int 7 = ''7''"
    by (simp add: show_int_def digits.simps)
  have e: "sendRequest sample_env ?e sample_client 0 request = Inl (Error ''Moz API Error: bad (Code: 7)'')"
    for request
    using sendRequest_unwraps_response [where rm = ?e and k = 0 and c = sample_client
        and request = request and env = sample_env
        and body = "[(''error'', JObj [(''code'', JNum 7), (''message'', JStr ''bad'')])]"
        and err = "[(''code'', JNum 7), (''message'', JStr ''bad'')]" and m = "''bad''" and code = 7
        and msg = "[]" and d = JUndefined]
      pe [of 0 request] seven
    by simp
  have r: "sendRequest sample_env ?r sample_client 0 request = Inr (JObj [(''a'', JNum 1)])"
    for request
    using sendRequest_unwraps_response [where rm = ?r and k = 0 and c = sample_client
        and request = request and env = sample_env
        and body = "[(''result'', JObj [(''a'', JNum 1)])]"
        and err = "[]" and m = "[]" and code = 0 and msg = "[]" and d = JUndefined]
      pr [of 0 request]
    by simp
  have t: "sendRequest sample_env ?t sample_client 0 request
      = Inl (Error ''Network Error: timeout - No response data'')"
    for request
    using sendRequest_unwraps_response [where rm = ?t and k = 0 and c = sample_client
        and request = request and env = sample_env
        and body = "[]" and err = "[]" and m = "[]" and code = 0
        and msg = "''timeout''" and d = JUndefined]
      pt [of 0 request]
    by simp
  show ?thesis
    unfolding getQuota_def getKeywordSearchIntent_def getKeywordSuggestions_def getKeywordDifficulty_def getKeywordVolume_def getKeywordMetrics_def getKeywordOpportunity_def getKeywordPriority_def getSiteBrandAuthority_def getSiteMetrics_def getSiteRankingKeywords_def getUrlMetrics_def getLinks_def getAnchorText_def getTopPages_def getLinkingDomains_def getGlobalTopPages_def getGlobalTopDomains_def getUsageData_def getSiteMetricsMultiple_def getSiteRankingKeywordsCount_def
    by (intro conjI pe pr pt e r t)
qed

subsection \<open>Defaults of the wrappers\<close>

text \<open>
  C4 asks for a default limit of 1000 in the keyword-suggestions request.  Called without
  options for the keyword \<^verbatim>\<open>seo\<close>, the wrapper builds a request whose parameters hold the
  default locale, device and engine and no \<^verbatim>\<open>limit\<close> member at all.
\<close>

theorem getKeywordSuggestions_without_default_limit:
  "params (getKeywordSuggestions_request (constant_remote result_body) 0 ''seo'' None) =
     JObj [(''data'', JObj [(''serp_query'', JObj
       [(''keyword'', JStr ''seo''),
        (''locale'', JStr ''en-US''),
        (''device'', JStr ''desktop''),
        (''engine'', JStr ''google'')])])]
   \<and> \<not> has_field (own_prop (params (getKeywordSuggestions_request (constant_remote result_body) 0 ''seo'' None))
                    ''data'') ''limit''
   \<and> \<not> has_field (params (getKeywordSuggestions_request (constant_remote result_body) 0 ''seo'' None)) ''limit''"
  by (simp add: getKeywordSuggestions_request_def createRequest_def or_string_def opt_field_def)

text \<open>The other defaults named by C4 are the ones the wrappers apply.\<close>

lemma wrapper_defaults_without_options:
  "params (getKeywordMetrics_request rm k keyword None) =
     JObj [(''data'', JObj [(''serp_query'', JObj
       [(''keyword'', JStr keyword), (''locale'', JStr ''en-US''),
        (''device'', JStr ''desktop''), (''engine'', JStr ''google'')])])]"
  "params (getSiteMetrics_request rm k site) =
     JObj [(''data'', JObj [(''site_query'', JObj
       [(''query'', JStr site), (''scope'', JStr ''domain'')])])]"
  "params (getSiteBrandAuthority_request rm k site) =
     JObj [(''data'', JObj [(''site_query'', JObj
       [(''query'', JStr site), (''scope'', JStr ''domain'')])])]"
  "params (getSiteRankingKeywords_request rm k site None) =
     JObj [(''data'', JObj
       [(''target_query'', JObj
           [(''query'', JStr site), (''scope'', JStr ''domain''), (''locale'', JStr ''en-US'')]),
        (''serp_query'', JObj [(''engine'', JStr ''google''), (''locale'', JStr ''en-US'')]),
        (''limit'', JNum 100)])]"
  "params (getLinks_request rm k target None) =
     JObj [(''data'', JObj
       [(''target'', JStr target), (''scope'', JStr ''page''), (''limit'', JNum 50)])]"
  "params (getAnchorText_request rm k target None) =
     JObj [(''data'', JObj
       [(''target'', JStr target), (''scope'', JStr ''page''), (''limit'', JNum 50)])]"
  "params (getTopPages_request rm k target None) =
     JObj [(''data'', JObj
       [(''target'', JStr target), (''scope'', JStr ''root_domain''), (''limit'', JNum 50)])]"
  "params (getLinkingDomains_request rm k target None) =
     JObj [(''data'', JObj
       [(''target'', JStr target), (''scope'', JStr ''page''), (''limit'', JNum 50)])]"
  "params (getGlobalTopPages_request rm k None) = JObj [(''data'', JObj [(''limit'', JNum 100)])]"
  "params (getGlobalTopDomains_request rm k None) = JObj [(''data'', JObj [(''limit'', JNum 100)])]"
  by (simp_all add: getKeywordMetrics_request_def serp_query_def getSiteMetrics_request_def
      site_query_def getSiteBrandAuthority_request_def getSiteRankingKeywords_request_def
      getLinks_request_def getAnchorText_request_def getTopPages_request_def
      getLinkingDomains_request_def getGlobalTopPages_request_def getGlobalTopDomains_request_def
      createRequest_def or_string_def or_number_def opt_field_def spread_string_def)

text \<open>
  C10: two keyword-suggestions calls with the same keyword and the same locale option
  build requests with the same method and the same parameters, whatever their limit
  options are (and the same request and outcome when they draw the same identifier from
  the same transport); the request parameters hold the keyword, the locale, the device
  and the engine \<^verbatim>\<open>google\<close>, and nothing else.
\<close>

theorem getKeywordSuggestions_ignores_limit:
  "(opt_field locale_opt os1 = opt_field locale_opt os2 \<longrightarrow>
      params (getKeywordSuggestions_request rm1 k1 keyword os1)
        = params (getKeywordSuggestions_request rm2 k2 keyword os2)
      \<and> rpc_method (getKeywordSuggestions_request rm1 k1 keyword os1)
        = rpc_method (getKeywordSuggestions_request rm2 k2 keyword os2)
      \<and> getKeywordSuggestions_request rm k keyword os1 = getKeywordSuggestions_request rm k keyword os2
      \<and> getKeywordSuggestions env rm c k keyword os1 = getKeywordSuggestions env rm c k keyword os2)
   \<and> params (getKeywordSuggestions_request rm k keyword os) =
       JObj [(''data'', JObj [(''serp_query'', JObj
          [(''keyword'', JStr keyword),
           (''locale'', JStr (or_string (opt_field locale_opt os) ''en-US'')),
           (''device'', JStr ''desktop''),
           (''engine'', JStr ''google'')])])]"
  by (simp add: getKeywordSuggestions_request_def getKeywordSuggestions_def createRequest_def)

text \<open>A call with the limit 5 and a call without options.\<close>

theorem getKeywordSuggestions_ignores_limit_witness:
  "opt_field locale_opt (Some (no_options\<lparr>limit := Some 5\<rparr>)) = opt_field locale_opt (None :: options option)
   \<and> getKeywordSuggestions_request (constant_remote result_body) 0 ''seo''
         (Some (no_options\<lparr>limit := Some 5\<rparr>))
       = getKeywordSuggestions_request (constant_remote result_body) 0 ''seo'' None
   \<and> params (getKeywordSuggestions_request (constant_remote result_body) 0 ''seo''
         (Some (no_options\<lparr>limit := Some 5\<rparr>)))
       = params (getKeywordSuggestions_request (constant_remote error_body) 7 ''seo'' None)"
proof -
  have same_locale:
    "opt_field locale_opt (Some (no_options\<lparr>limit := Some 5\<rparr>)) = opt_field locale_opt (None :: options option)"
    by (simp add: opt_field_def no_options_def)
  from getKeywordSuggestions_ignores_limit
    [where ?os1.0 = "Some (no_options\<lparr>limit := Some 5\<rparr>)" and ?os2.0 = None
       and rm = "constant_remote result_body" and k = 0 and keyword = "''seo''"
       and ?rm1.0 = "constant_remote result_body" and ?k1.0 = 0
       and ?rm2.0 = "constant_remote error_body" and ?k2.0 = 7
       and env = sample_env and c = sample_client and os = None]
    same_locale
  show ?thesis
    by blast
qed

section \<open>Properties of insight generation\<close>

subsection \<open>Blocks only append\<close>

lemma primary_site_insights_prepend:
  "primary_site_insights env a ins = prepend ins (primary_site_insights env a [])"
  by (simp add: primary_site_insights_def Let_def split: sum.splits option.splits)

lemma keyword_difficulty_insights_prepend:
  "keyword_difficulty_insights env a ins = prepend ins (keyword_difficulty_insights env a [])"
  by (simp add: keyword_difficulty_insights_def Let_def split: sum.splits option.splits)

lemma keyword_volume_insights_prepend:
  "keyword_volume_insights env a ins = prepend ins (keyword_volume_insights env a [])"
  by (simp add: keyword_volume_insights_def Let_def split: sum.splits option.splits)

lemma competitor_comparison_insights_prepend:
  "competitor_comparison_insights env a ins = prepend ins (competitor_comparison_insights env a [])"
  by (simp add: competitor_comparison_insights_def Let_def
      split: sum.splits option.splits bool.splits json.splits prod.splits)

lemma ranking_keywords_insights_prepend:
  "ranking_keywords_insights env a ins = prepend ins (ranking_keywords_insights env a [])"
  by (simp add: ranking_keywords_insights_def Let_def split: sum.splits option.splits json.splits)

lemma prepend_Nil [simp]: "prepend [] s = s"
  by (cases s) simp_all

lemma prepend_prepend [simp]: "prepend xs (prepend ys s) = prepend (xs @ ys) s"
  by (cases s) simp_all

lemma then_step_prepend:
  "then_step s (\<lambda>ins. prepend ins t) = (case s of Done xs \<Rightarrow> prepend xs t | Threw xs \<Rightarrow> Threw xs)"
  by (cases s) simp_all

lemma insight_steps_in_sequence:
  "insight_steps env a =
     in_sequence [primary_site_insights env a [], keyword_difficulty_insights env a [],
                  keyword_volume_insights env a [], competitor_comparison_insights env a [],
                  ranking_keywords_insights env a []]"
proof -
  have 2: "keyword_difficulty_insights env a = (\<lambda>ins. prepend ins (keyword_difficulty_insights env a []))"
    using keyword_difficulty_insights_prepend by blast
  have 3: "keyword_volume_insights env a = (\<lambda>ins. prepend ins (keyword_volume_insights env a []))"
    using keyword_volume_insights_prepend by blast
  have 4: "competitor_comparison_insights env a = (\<lambda>ins. prepend ins (competitor_comparison_insights env a []))"
    using competitor_comparison_insights_prepend by blast
  have 5: "ranking_keywords_insights env a = (\<lambda>ins. prepend ins (ranking_keywords_insights env a []))"
    using ranking_keywords_insights_prepend by blast
  obtain s1 s2 s3 s4 s5 where s:
    "primary_site_insights env a [] = s1" "keyword_difficulty_insights env a [] = s2"
    "keyword_volume_insights env a [] = s3" "competitor_comparison_insights env a [] = s4"
    "ranking_keywords_insights env a [] = s5"
    by blast
  have "insight_steps env a =
      then_step (then_step (then_step (then_step s1 (\<lambda>ins. prepend ins s2))
        (\<lambda>ins. prepend ins s3)) (\<lambda>ins. prepend ins s4)) (\<lambda>ins. prepend ins s5)"
    unfolding insight_steps_def
    by (subst 2, subst 3, subst 4, subst 5) (simp only: s)
  also have "\<dots> = in_sequence [s1, s2, s3, s4, s5]"
    by (cases s1; cases s2; cases s3; cases s4; cases s5) (simp_all add: then_step_prepend)
  finally show ?thesis
    by (simp only: s)
qed

lemma in_sequence_lines:
  "set (steps_lines (in_sequence ss)) \<subseteq> (\<Union>s\<in>set ss. set (steps_lines s))"
proof (induction ss rule: in_sequence.induct)
  case 1
  then show ?case by simp
next
  case (2 xs rest)
  then show ?case by (cases "in_sequence rest") auto
next
  case (3 xs rest)
  then show ?case by simp
qed

lemma in_sequence_Done:
  "in_sequence [s1, s2, s3, s4, s5] = Done lines \<Longrightarrow>
     \<exists>l1 l2 l3 l4 l5. s1 = Done l1 \<and> s2 = Done l2 \<and> s3 = Done l3 \<and> s4 = Done l4 \<and> s5 = Done l5
       \<and> lines = l1 @ l2 @ l3 @ l4 @ l5"
  by (cases s1; cases s2; cases s3; cases s4; cases s5) simp_all

lemma generate_lines:
  "set (generateCompetitorInsights env a) \<subseteq>
     set (steps_lines (primary_site_insights env a []))
     \<union> set (steps_lines (keyword_difficulty_insights env a []))
     \<union> set (steps_lines (keyword_volume_insights env a []))
     \<union> set (steps_lines (competitor_comparison_insights env a []))
     \<union> set (steps_lines (ranking_keywords_insights env a []))
     \<union> {fallback_note}"
proof -
  let ?ss = "[primary_site_insights env a [], keyword_difficulty_insights env a [],
              keyword_volume_insights env a [], competitor_comparison_insights env a [],
              ranking_keywords_insights env a []]"
  have "set (generateCompetitorInsights env a) \<subseteq> set (steps_lines (in_sequence ?ss)) \<union> {fallback_note}"
    by (auto simp add: generateCompetitorInsights_def insight_steps_in_sequence split: steps.splits)
  with in_sequence_lines [of ?ss] show ?thesis
    by auto
qed

lemma generate_without_fallback:
  assumes "fallback_note \<notin> set (generateCompetitorInsights env a)"
  shows "\<exists>l1 l2 l3 l4 l5.
     primary_site_insights env a [] = Done l1 \<and> keyword_difficulty_insights env a [] = Done l2
     \<and> keyword_volume_insights env a [] = Done l3 \<and> competitor_comparison_insights env a [] = Done l4
     \<and> ranking_keywords_insights env a [] = Done l5
     \<and> generateCompetitorInsights env a = l1 @ l2 @ l3 @ l4 @ l5"
proof -
  let ?ss = "[primary_site_insights env a [], keyword_difficulty_insights env a [],
              keyword_volume_insights env a [], competitor_comparison_insights env a [],
              ranking_keywords_insights env a []]"
  from assms obtain lines where d: "in_sequence ?ss = Done lines"
    and g: "generateCompetitorInsights env a = lines"
    by (cases "in_sequence ?ss") (simp_all add: generateCompetitorInsights_def insight_steps_in_sequence)
  from in_sequence_Done [OF d] g show ?thesis
    by blast
qed

subsection \<open>The kind of line each block pushes\<close>

lemma primary_site_insights_kind:
  "l \<in> set (steps_lines (primary_site_insights env a [])) \<Longrightarrow> is_brand_line l"
  by (auto simp add: primary_site_insights_def Let_def is_brand_line_def
      split: sum.splits option.splits if_splits)

lemma keyword_difficulty_insights_kind:
  "l \<in> set (steps_lines (keyword_difficulty_insights env a [])) \<Longrightarrow> is_difficulty_line l"
  by (auto simp add: keyword_difficulty_insights_def Let_def is_difficulty_line_def
      split: sum.splits option.splits if_splits)

lemma keyword_volume_insights_kind:
  "l \<in> set (steps_lines (keyword_volume_insights env a [])) \<Longrightarrow> is_volume_line l"
  by (auto simp add: keyword_volume_insights_def Let_def is_volume_line_def
      split: sum.splits option.splits if_splits)

lemma competitor_comparison_insights_kind:
  "l \<in> set (steps_lines (competitor_comparison_insights env a [])) \<Longrightarrow> is_landscape_line l"
  by (auto simp add: competitor_comparison_insights_def Let_def is_landscape_line_def landscape_line_def
      split: sum.splits option.splits if_splits bool.splits json.splits prod.splits)

lemma ranking_keywords_insights_kind:
  "l \<in> set (steps_lines (ranking_keywords_insights env a [])) \<Longrightarrow> is_ranking_line l"
  by (auto simp add: ranking_keywords_insights_def Let_def is_ranking_line_def
      split: sum.splits option.splits if_splits json.splits)

lemma kinds_apart:
  "is_brand_line l \<Longrightarrow> \<not> is_difficulty_line l \<and> \<not> is_volume_line l \<and> \<not> is_landscape_line l \<and> \<not> is_ranking_line l"
  "is_difficulty_line l \<Longrightarrow> \<not> is_brand_line l \<and> \<not> is_volume_line l \<and> \<not> is_landscape_line l \<and> \<not> is_ranking_line l"
  "is_volume_line l \<Longrightarrow> \<not> is_brand_line l \<and> \<not> is_difficulty_line l \<and> \<not> is_landscape_line l \<and> \<not> is_ranking_line l"
  "is_landscape_line l \<Longrightarrow> \<not> is_brand_line l \<and> \<not> is_difficulty_line l \<and> \<not> is_volume_line l \<and> \<not> is_ranking_line l"
  "is_ranking_line l \<Longrightarrow> \<not> is_brand_line l \<and> \<not> is_difficulty_line l \<and> \<not> is_volume_line l \<and> \<not> is_landscape_line l"
  by (auto simp add: is_brand_line_def is_difficulty_line_def is_volume_line_def
      is_landscape_line_def is_ranking_line_def elim!: prefixE)

lemma fallback_note_kind:
  "\<not> is_brand_line fallback_note" "\<not> is_difficulty_line fallback_note"
  "\<not> is_volume_line fallback_note" "\<not> is_landscape_line fallback_note"
  "\<not> is_ranking_line fallback_note"
  by (simp_all add: is_brand_line_def is_difficulty_line_def is_volume_line_def
      is_landscape_line_def is_ranking_line_def fallback_note_def)

lemma opt_prop_eq: "opt_prop v p = own_prop v p"
  by (cases v) (simp_all add: opt_prop_def)

lemma get_prop_defined: "own_prop a p \<noteq> JUndefined \<Longrightarrow> get_prop a q = Inr (own_prop a q)"
  by (cases a) (simp_all add: get_prop_def)

lemma filter_kind_empty:
  "(\<And>l. l \<in> set xs \<Longrightarrow> Q l) \<Longrightarrow> (\<And>l. Q l \<Longrightarrow> \<not> P l) \<Longrightarrow> filter P xs = []"
  by (induction xs) auto


section \<open>Properties of the competitor analysis\<close>

subsection \<open>The assembled report\<close>

lemma catch_error_settled: "catch_error r = Inr (settled_slot r)"
  by (simp add: catch_error_def settled_slot_def split: sum.splits)

lemma site_batch_settled:
  "site_batch env rm c k site loc = Inr (map snd (site_slots env rm c loc k site))"
  by (simp add: site_batch_def site_slots_def catch_error_settled)

lemma keyword_batch_settled:
  "keyword_batch env rm c k kw loc = Inr (map snd (keyword_slots env rm c loc k kw))"
  by (simp add: keyword_batch_def keyword_slots_def catch_error_settled)

lemma nth_opt_Cons: "nth_opt (x # xs) n = (if n = 0 then Some x else nth_opt xs (n - 1))"
  by (cases n) simp_all

lemma competitor_entry_settled:
  "competitor_entry env rm c k site loc = JObj ((''site'', JStr site) # site_slots env rm c loc k site)"
  by (simp add: competitor_entry_def site_batch_settled site_slots_def element_def nth_opt_Cons)

lemma analyze_competitors_enumerate:
  "analyze_competitors env rm c loc (k + 3 * n) sites acc =
     acc @ map (\<lambda>(i, site). JObj ((''site'', JStr site) # site_slots env rm c loc (k + 3 * i) site))
             (enumerate n sites)"
proof (induction sites arbitrary: n acc)
  case Nil
  then show ?case by simp
next
  case (Cons s sites)
  have eq: "k + 3 * n + 3 = k + 3 * Suc n"
    by simp
  show ?case
    by (simp only: analyze_competitors.simps eq Cons.IH competitor_entry_settled) simp
qed

lemma analyze_competitors_entries:
  "analyze_competitors env rm c loc (k + 3) sites [] = competitor_entries env rm c loc k sites"
  using analyze_competitors_enumerate [of env rm c loc "k + 3" 0 sites "[]"]
  by (simp add: competitor_entries_def)

lemma analysis_try_assembled:
  "analysis_try env rm now c k primarySite sites targetKeyword loc inc =
     Inr (JObj (assembled env rm now c k primarySite sites targetKeyword loc inc
                  (JArr (map JStr (generateCompetitorInsights env
                     (JObj (assembled env rm now c k primarySite sites targetKeyword loc inc (JArr []))))))
                @ (if sites = []
                   then [(''competitor_identification_guidance'', competitor_identification_guidance)]
                   else [])))"
proof (cases inc)
  case True
  show ?thesis
  proof (cases "sites = []")
    case e: True
    from True e show ?thesis
      unfolding analysis_try_def Let_def site_batch_settled keyword_batch_settled
      by (simp add: assembled_def site_slots_def keyword_slots_def element_def nth_opt_Cons
          competitor_entries_def)
  next
    case e: False
    from True e show ?thesis
      unfolding analysis_try_def Let_def site_batch_settled keyword_batch_settled
        analyze_competitors_entries
      by (simp add: assembled_def site_slots_def keyword_slots_def element_def nth_opt_Cons)
  qed
next
  case False
  show ?thesis
  proof (cases "sites = []")
    case e: True
    from False e show ?thesis
      unfolding analysis_try_def Let_def site_batch_settled keyword_batch_settled
      by (simp add: assembled_def site_slots_def keyword_slots_def element_def nth_opt_Cons
          competitor_entries_def)
  next
    case e: False
    from False e show ?thesis
      unfolding analysis_try_def Let_def site_batch_settled keyword_batch_settled
        analyze_competitors_entries
      by (simp add: assembled_def site_slots_def keyword_slots_def element_def nth_opt_Cons)
  qed
qed

lemma getCompetitorAnalysis_assembled:
  "getCompetitorAnalysis env rm now c k primarySite competitorSites targetKeyword os =
     Inr (JObj (assembled env rm now c k primarySite
                  (case competitorSites of None \<Rightarrow> [] | Some sites \<Rightarrow> sites) targetKeyword
                  (or_string (opt_field locale_opt os) ''en-US'')
                  (opt_field include_keyword_analysis os \<noteq> Some False)
                  (JArr (map JStr (generateCompetitorInsights env
                     (JObj (assembled env rm now c k primarySite
                        (case competitorSites of None \<Rightarrow> [] | Some sites \<Rightarrow> sites) targetKeyword
                        (or_string (opt_field locale_opt os) ''en-US'')
                        (opt_field include_keyword_analysis os \<noteq> Some False) (JArr []))))))
                @ (if (case competitorSites of None \<Rightarrow> [] | Some sites \<Rightarrow> sites) = []
                   then [(''competitor_identification_guidance'', competitor_identification_guidance)]
                   else [])))"
  by (simp only: getCompetitorAnalysis_def analysis_try_assembled sum.case)

lemma own_prop_append:
  "own_prop (JObj (xs @ ys)) p = (case map_of xs p of Some v \<Rightarrow> v | None \<Rightarrow> own_prop (JObj ys) p)"
  by (simp add: map_add_def split: option.splits)

lemma has_field_append:
  "has_field (JObj (xs @ ys)) p = (map_of xs p \<noteq> None \<or> has_field (JObj ys) p)"
  by (auto simp add: map_add_def split: option.splits)

lemma assembled_fields:
  "map_of (assembled env rm now c k primarySite sites targetKeyword loc inc insights)
       ''primary_site_data'' = Some (JObj (site_slots env rm c loc k primarySite))"
  "map_of (assembled env rm now c k primarySite sites targetKeyword loc inc insights)
       ''competitor_data'' = Some (JArr (competitor_entries env rm c loc k sites))"
  "map_of (assembled env rm now c k primarySite sites targetKeyword loc inc insights)
       ''keyword_analysis'' =
     Some (if inc then JObj ((''keyword'', JStr targetKeyword)
                         # keyword_slots env rm c loc (k + 3 + 3 * length sites) targetKeyword)
           else JObj [])"
  "map_of (assembled env rm now c k primarySite sites targetKeyword loc inc insights)
       ''insights'' = Some insights"
  "map_of (assembled env rm now c k primarySite sites targetKeyword loc inc insights)
       ''target_keyword'' = Some (JStr targetKeyword)"
  "map_of (assembled env rm now c k primarySite sites targetKeyword loc inc insights)
       ''competitor_identification_guidance'' = None"
  by (simp_all add: assembled_def)

lemma competitor_entries_sites:
  "map (\<lambda>entry. own_prop entry ''site'') (competitor_entries env rm c loc k sites) = map JStr sites"
proof -
  have "map (\<lambda>entry. own_prop entry ''site'') (competitor_entries env rm c loc k sites)
      = map (\<lambda>p. JStr (snd p)) (enumerate 0 sites)"
    by (simp add: competitor_entries_def case_prod_unfold comp_def)
  also have "\<dots> = map JStr (map snd (enumerate 0 sites))"
    by (simp only: map_map comp_def)
  also have "map snd (enumerate 0 sites) = sites"
    by (rule map_snd_enumerate)
  finally show ?thesis .
qed

lemma competitor_entries_length:
  "length (competitor_entries env rm c loc k sites) = length sites"
  by (simp add: competitor_entries_def)


text \<open>
  C1: whatever the outcomes of the remote calls, the analysis returns a report.  Its
  primary-site slots and the slots of every competitor hold the result of the call or
  the marker \<^verbatim>\<open>{error: message}\<close> of a failed call, and its competitor list has one
  entry for each competitor site, in the order of the caller's list.
\<close>

theorem getCompetitorAnalysis_competitor_data:
  "\<exists>analysis entries.
     getCompetitorAnalysis env rm now c k primarySite competitorSites targetKeyword os = Inr analysis
     \<and> own_prop analysis ''primary_site_data''
         = JObj (site_slots env rm c (or_string (opt_field locale_opt os) ''en-US'') k primarySite)
     \<and> own_prop analysis ''competitor_data'' = JArr entries
     \<and> entries = competitor_entries env rm c (or_string (opt_field locale_opt os) ''en-US'') k
                   (case competitorSites of None \<Rightarrow> [] | Some sites \<Rightarrow> sites)
     \<and> length entries = length (case competitorSites of None \<Rightarrow> [] | Some sites \<Rightarrow> sites)
     \<and> map (\<lambda>entry. own_prop entry ''site'') entries
         = map JStr (case competitorSites of None \<Rightarrow> [] | Some sites \<Rightarrow> sites)"
  by (simp only: getCompetitorAnalysis_assembled own_prop_append assembled_fields
      option.case sum.inject simp_thms ex_simps)
     (simp add: competitor_entries_sites competitor_entries_length)


text \<open>The analysis of the specification: every call about \<^verbatim>\<open>c1.com\<close> fails, every call
  about \<^verbatim>\<open>c2.com\<close> succeeds.\<close>

theorem getCompetitorAnalysis_competitor_data_witness:
  "own_prop (returned_report (getCompetitorAnalysis sample_env
       (failing_site_remote ''c1.com'' (JNum 50) (JArr [])) ''2024-01-01T00:00:00.000Z''
       sample_client 0 ''example.com'' (Some [''c1.com'', ''c2.com'']) ''seo'' None))
     ''competitor_data'' =
   JArr [JObj [(''site'', JStr ''c1.com''),
               (''site_metrics'', JObj [(''error'', JStr ''Network Error: timeout - No response data'')]),
               (''brand_authority'', JObj [(''error'', JStr ''Network Error: timeout - No response data'')]),
               (''ranking_keywords'', JObj [(''error'', JStr ''Network Error: timeout - No response data'')])],
         JObj [(''site'', JStr ''c2.com''),
               (''site_metrics'', JObj [(''a'', JNum 1)]),
               (''brand_authority'', JObj [(''result'', JObj [(''brand_authority'', JNum 50)])]),
               (''ranking_keywords'', JObj [(''result'', JArr [])])]]"
proof -
  let ?rm = "failing_site_remote ''c1.com'' (JNum 50) (JArr [])"
  have entries: "competitor_entries sample_env ?rm sample_client ''en-US'' 0 [''c1.com'', ''c2.com''] =
      [JObj [(''site'', JStr ''c1.com''),
             (''site_metrics'', JObj [(''error'', JStr ''Network Error: timeout - No response data'')]),
             (''brand_authority'', JObj [(''error'', JStr ''Network Error: timeout - No response data'')]),
             (''ranking_keywords'', JObj [(''error'', JStr ''Network Error: timeout - No response data'')])],
       JObj [(''site'', JStr ''c2.com''),
             (''site_metrics'', JObj [(''a'', JNum 1)]),
             (''brand_authority'', JObj [(''result'', JObj [(''brand_authority'', JNum 50)])]),
             (''ranking_keywords'', JObj [(''result'', JArr [])])]]"
    by code_simp
  from getCompetitorAnalysis_competitor_data [of sample_env ?rm "''2024-01-01T00:00:00.000Z''"
      sample_client 0 "''example.com''" "Some [''c1.com'', ''c2.com'']" "''seo''" None]
  show ?thesis
    by (auto simp add: returned_report_def entries or_string_def opt_field_def)
qed

subsection \<open>Keyword analysis\<close>

text \<open>
  C5, as stated, fails: with \<^verbatim>\<open>include_keyword_analysis\<close> set to false the returned report
  still has a \<^verbatim>\<open>keyword_analysis\<close> member; it holds the empty object the report was
  initialised with.
\<close>

theorem getCompetitorAnalysis_keeps_keyword_analysis_field:
  "has_field (returned_report (getCompetitorAnalysis sample_env (constant_remote result_body)
       ''2024-01-01T00:00:00.000Z'' sample_client 0 ''example.com'' (Some []) ''seo''
       (Some (no_options\<lparr>include_keyword_analysis := Some False\<rparr>)))) ''keyword_analysis''
   \<and> own_prop (returned_report (getCompetitorAnalysis sample_env (constant_remote result_body)
       ''2024-01-01T00:00:00.000Z'' sample_client 0 ''example.com'' (Some []) ''seo''
       (Some (no_options\<lparr>include_keyword_analysis := Some False\<rparr>)))) ''keyword_analysis'' = JObj []"
  by code_simp


text \<open>
  C5, amended: the analysis returns a report that always has a \<^verbatim>\<open>keyword_analysis\<close>
  member.  With \<^verbatim>\<open>include_keyword_analysis\<close> set to false it is the empty object; otherwise
  (the default) it holds the keyword and the metrics, difficulty, volume and
  search-intent slots of four calls issued after those of the sites, each slot holding
  the result of its call or the marker of its failure.
\<close>

theorem getCompetitorAnalysis_keyword_analysis:
  "\<exists>analysis.
     getCompetitorAnalysis env rm now c k primarySite competitorSites targetKeyword os = Inr analysis
     \<and> has_field analysis ''keyword_analysis''
     \<and> own_prop analysis ''keyword_analysis'' =
         (if opt_field include_keyword_analysis os = Some False then JObj []
          else JObj ((''keyword'', JStr targetKeyword)
                 # keyword_slots env rm c (or_string (opt_field locale_opt os) ''en-US'')
                     (k + 3 + 3 * length (case competitorSites of None \<Rightarrow> [] | Some sites \<Rightarrow> sites))
                     targetKeyword))"
  by (simp only: getCompetitorAnalysis_assembled own_prop_append has_field_append assembled_fields
      option.case sum.inject simp_thms ex_simps if_not_P if_P option.distinct not_False_eq_True
      not_not if_bool_eq_conj) simp


text \<open>An analysis with the default options over a transport that answers every call with
  \<^verbatim>\<open>{result: {a: 1}}\<close>.\<close>

theorem getCompetitorAnalysis_keyword_analysis_witness:
  "own_prop (returned_report (getCompetitorAnalysis sample_env (constant_remote result_body)
       ''2024-01-01T00:00:00.000Z'' sample_client 0 ''example.com'' (Some []) ''seo'' None))
     ''keyword_analysis'' =
   JObj [(''keyword'', JStr ''seo''),
         (''metrics'', JObj [(''a'', JNum 1)]),
         (''difficulty'', JObj [(''a'', JNum 1)]),
         (''volume'', JObj [(''a'', JNum 1)]),
         (''search_intent'', JObj [(''a'', JNum 1)])]"
proof -
  have slots: "keyword_slots sample_env (constant_remote result_body) sample_client ''en-US'' 3 ''seo'' =
      [(''metrics'', JObj [(''a'', JNum 1)]),
       (''difficulty'', JObj [(''a'', JNum 1)]),
       (''volume'', JObj [(''a'', JNum 1)]),
       (''search_intent'', JObj [(''a'', JNum 1)])]"
    by code_simp
  from getCompetitorAnalysis_keyword_analysis [of sample_env "constant_remote result_body"
      "''2024-01-01T00:00:00.000Z''" sample_client 0 "''example.com''" "Some []" "''seo''" None]
  show ?thesis
    by (auto simp add: returned_report_def slots or_string_def opt_field_def)
qed

subsection \<open>No competitors\<close>

lemma comparison_without_competitors:
  "own_prop a ''competitor_data'' = JArr [] \<Longrightarrow> competitor_comparison_insights env a [] = Done []"
  by (simp add: competitor_comparison_insights_def get_prop_defined [of a "''competitor_data''"])

lemma line_origin:
  assumes "l \<in> set (generateCompetitorInsights env a)"
  shows "(is_brand_line l \<longrightarrow> l \<in> set (steps_lines (primary_site_insights env a [])))
       \<and> (is_difficulty_line l \<longrightarrow> l \<in> set (steps_lines (keyword_difficulty_insights env a [])))
       \<and> (is_volume_line l \<longrightarrow> l \<in> set (steps_lines (keyword_volume_insights env a [])))
       \<and> (is_landscape_line l \<longrightarrow> l \<in> set (steps_lines (competitor_comparison_insights env a [])))
       \<and> (is_ranking_line l \<longrightarrow> l \<in> set (steps_lines (ranking_keywords_insights env a [])))"
proof -
  from assms generate_lines [of env a]
  consider (1) "l \<in> set (steps_lines (primary_site_insights env a []))"
    | (2) "l \<in> set (steps_lines (keyword_difficulty_insights env a []))"
    | (3) "l \<in> set (steps_lines (keyword_volume_insights env a []))"
    | (4) "l \<in> set (steps_lines (competitor_comparison_insights env a []))"
    | (5) "l \<in> set (steps_lines (ranking_keywords_insights env a []))"
    | (6) "l = fallback_note"
    by blast
  then show ?thesis
  proof cases
    case 1
    from kinds_apart(1) [OF primary_site_insights_kind [OF 1]] 1 show ?thesis
      by simp
  next
    case 2
    from kinds_apart(2) [OF keyword_difficulty_insights_kind [OF 2]] 2 show ?thesis
      by simp
  next
    case 3
    from kinds_apart(3) [OF keyword_volume_insights_kind [OF 3]] 3 show ?thesis
      by simp
  next
    case 4
    from kinds_apart(4) [OF competitor_comparison_insights_kind [OF 4]] 4 show ?thesis
      by simp
  next
    case 5
    from kinds_apart(5) [OF ranking_keywords_insights_kind [OF 5]] 5 show ?thesis
      by simp
  next
    case 6
    with fallback_note_kind show ?thesis
      by simp
  qed
qed

lemma no_landscape_line_without_competitors:
  assumes "own_prop a ''competitor_data'' = JArr []"
  shows "filter is_landscape_line (generateCompetitorInsights env a) = []"
proof -
  have "\<not> is_landscape_line l" if "l \<in> set (generateCompetitorInsights env a)" for l
    using line_origin [OF that] comparison_without_competitors [OF assms, of env]
    by auto
  then show ?thesis
    by (simp add: filter_empty_conv)
qed


text \<open>
  C8: an analysis without competitor sites (an absent or an empty list) returns a report
  that holds the static guidance block (its message, its four suggestions and its note
  that competitors have to be specified by the caller) and whose insights have no
  competitor-comparison line.
\<close>

theorem no_competitors_guidance_without_comparison:
  "competitorSites = None \<or> competitorSites = Some [] \<Longrightarrow>
   \<exists>analysis lines.
     getCompetitorAnalysis env rm now c k primarySite competitorSites targetKeyword os = Inr analysis
     \<and> has_field analysis ''competitor_identification_guidance''
     \<and> own_prop analysis ''competitor_identification_guidance'' =
           JObj [(''message'', JStr ''No competitors were specified. To find potential competitors, you can:''),
               (''suggestions'', JArr
                  [JStr ''1. Look at the ranking keywords data above and see which sites rank for similar keywords'',
                   JStr ''2. Search for your target keyword in Google and see which sites appear in top results'',
                   JStr ''3. Use industry knowledge to identify known competitors'',
                   JStr ''4. Once you identify potential competitors, run this analysis again with competitor_sites parameter'']),
               (''note'', JStr ''Moz API does not automatically identify competitors - you need to specify them manually'')]
     \<and> own_prop analysis ''insights'' = JArr (map JStr lines)
     \<and> filter is_landscape_line lines = []"
proof -
  assume "competitorSites = None \<or> competitorSites = Some []"
  then have e: "(case competitorSites of None \<Rightarrow> [] | Some sites \<Rightarrow> sites) = []"
    by auto
  let ?a = "JObj (assembled env rm now c k primarySite [] targetKeyword
              (or_string (opt_field locale_opt os) ''en-US'')
              (opt_field include_keyword_analysis os \<noteq> Some False) (JArr []))"
  have "own_prop ?a ''competitor_data'' = JArr []"
    by (simp add: assembled_fields competitor_entries_def)
  then have "filter is_landscape_line (generateCompetitorInsights env ?a) = []"
    by (rule no_landscape_line_without_competitors)
  then show ?thesis
    by (simp only: getCompetitorAnalysis_assembled e own_prop_append has_field_append assembled_fields
        option.case sum.inject simp_thms ex_simps if_True)
       (auto simp add: competitor_identification_guidance_def)
qed


text \<open>An analysis with an empty competitor list.\<close>

theorem no_competitors_guidance_without_comparison_witness:
  "(Some [] :: string list option) = Some []
   \<and> has_field (returned_report (getCompetitorAnalysis sample_env (constant_remote result_body)
         ''2024-01-01T00:00:00.000Z'' sample_client 0 ''example.com'' (Some []) ''seo'' None))
       ''competitor_identification_guidance''
   \<and> own_prop (returned_report (getCompetitorAnalysis sample_env (constant_remote result_body)
         ''2024-01-01T00:00:00.000Z'' sample_client 0 ''example.com'' (Some []) ''seo'' None))
       ''competitor_identification_guidance'' =
         JObj [(''message'', JStr ''No competitors were specified. To find potential competitors, you can:''),
               (''suggestions'', JArr
                  [JStr ''1. Look at the ranking keywords data above and see which sites rank for similar keywords'',
                   JStr ''2. Search for your target keyword in Google and see which sites appear in top results'',
                   JStr ''3. Use industry knowledge to identify known competitors'',
                   JStr ''4. Once you identify potential competitors, run this analysis again with competitor_sites parameter'']),
               (''note'', JStr ''Moz API does not automatically identify competitors - you need to specify them manually'')]
   \<and> own_prop (returned_report (getCompetitorAnalysis sample_env (constant_remote result_body)
         ''2024-01-01T00:00:00.000Z'' sample_client 0 ''example.com'' (Some []) ''seo'' None))
       ''insights'' = JArr []"
proof -
  have insights: "own_prop (returned_report (getCompetitorAnalysis sample_env (constant_remote result_body)
         ''2024-01-01T00:00:00.000Z'' sample_client 0 ''example.com'' (Some []) ''seo'' None))
       ''insights'' = JArr []"
    by code_simp
  from no_competitors_guidance_without_comparison [of "Some []" sample_env
      "constant_remote result_body" "''2024-01-01T00:00:00.000Z''" sample_client 0
      "''example.com''" "''seo''" None]
  obtain analysis where "getCompetitorAnalysis sample_env (constant_remote result_body)
         ''2024-01-01T00:00:00.000Z'' sample_client 0 ''example.com'' (Some []) ''seo'' None = Inr analysis"
    and "has_field analysis ''competitor_identification_guidance''"
    and "own_prop analysis ''competitor_identification_guidance'' =
         JObj [(''message'', JStr ''No competitors were specified. To find potential competitors, you can:''),
               (''suggestions'', JArr
                  [JStr ''1. Look at the ranking keywords data above and see which sites rank for similar keywords'',
                   JStr ''2. Search for your target keyword in Google and see which sites appear in top results'',
                   JStr ''3. Use industry knowledge to identify known competitors'',
                   JStr ''4. Once you identify potential competitors, run this analysis again with competitor_sites parameter'']),
               (''note'', JStr ''Moz API does not automatically identify competitors - you need to specify them manually'')]"
    by auto
  with insights show ?thesis
    by (simp add: returned_report_def)
qed

subsection \<open>Lines by kind\<close>

lemma filter_by_kind:
  assumes "fallback_note \<notin> set (generateCompetitorInsights env a)"
  shows "primary_site_insights env a [] = Done (filter is_brand_line (generateCompetitorInsights env a))
       \<and> keyword_difficulty_insights env a [] = Done (filter is_difficulty_line (generateCompetitorInsights env a))
       \<and> keyword_volume_insights env a [] = Done (filter is_volume_line (generateCompetitorInsights env a))
       \<and> competitor_comparison_insights env a [] = Done (filter is_landscape_line (generateCompetitorInsights env a))
       \<and> ranking_keywords_insights env a [] = Done (filter is_ranking_line (generateCompetitorInsights env a))"
proof -
  from generate_without_fallback [OF assms] obtain l1 l2 l3 l4 l5 where
    d: "primary_site_insights env a [] = Done l1" "keyword_difficulty_insights env a [] = Done l2"
       "keyword_volume_insights env a [] = Done l3" "competitor_comparison_insights env a [] = Done l4"
       "ranking_keywords_insights env a [] = Done l5"
    and g: "generateCompetitorInsights env a = l1 @ l2 @ l3 @ l4 @ l5"
    by blast
  have k1: "is_brand_line l" if "l \<in> set l1" for l
    using primary_site_insights_kind [of l env a] that d by simp
  have k2: "is_difficulty_line l" if "l \<in> set l2" for l
    using keyword_difficulty_insights_kind [of l env a] that d by simp
  have k3: "is_volume_line l" if "l \<in> set l3" for l
    using keyword_volume_insights_kind [of l env a] that d by simp
  have k4: "is_landscape_line l" if "l \<in> set l4" for l
    using competitor_comparison_insights_kind [of l env a] that d by simp
  have k5: "is_ranking_line l" if "l \<in> set l5" for l
    using ranking_keywords_insights_kind [of l env a] that d by simp
  have f1: "filter is_brand_line l1 = l1" "filter is_difficulty_line l1 = []"
    "filter is_volume_line l1 = []" "filter is_landscape_line l1 = []" "filter is_ranking_line l1 = []"
    using k1 kinds_apart(1) by (simp_all add: filter_empty_conv)
  have f2: "filter is_brand_line l2 = []" "filter is_difficulty_line l2 = l2"
    "filter is_volume_line l2 = []" "filter is_landscape_line l2 = []" "filter is_ranking_line l2 = []"
    using k2 kinds_apart(2) by (simp_all add: filter_empty_conv)
  have f3: "filter is_brand_line l3 = []" "filter is_difficulty_line l3 = []"
    "filter is_volume_line l3 = l3" "filter is_landscape_line l3 = []" "filter is_ranking_line l3 = []"
    using k3 kinds_apart(3) by (simp_all add: filter_empty_conv)
  have f4: "filter is_brand_line l4 = []" "filter is_difficulty_line l4 = []"
    "filter is_volume_line l4 = []" "filter is_landscape_line l4 = l4" "filter is_ranking_line l4 = []"
    using k4 kinds_apart(4) by (simp_all add: filter_empty_conv)
  have f5: "filter is_brand_line l5 = []" "filter is_difficulty_line l5 = []"
    "filter is_volume_line l5 = []" "filter is_landscape_line l5 = []" "filter is_ranking_line l5 = l5"
    using k5 kinds_apart(5) by (simp_all add: filter_empty_conv)
  show ?thesis
    by (simp add: g d f1 f2 f3 f4 f5)
qed

lemma suppressed_kind:
  "steps_lines (primary_site_insights env a []) = [] \<Longrightarrow>
     filter is_brand_line (generateCompetitorInsights env a) = []"
  "steps_lines (keyword_difficulty_insights env a []) = [] \<Longrightarrow>
     filter is_difficulty_line (generateCompetitorInsights env a) = []"
  "steps_lines (keyword_volume_insights env a []) = [] \<Longrightarrow>
     filter is_volume_line (generateCompetitorInsights env a) = []"
  "steps_lines (ranking_keywords_insights env a []) = [] \<Longrightarrow>
     filter is_ranking_line (generateCompetitorInsights env a) = []"
  using line_origin [of _ env a] by (auto simp add: filter_empty_conv)

subsection \<open>The ranking-keywords block\<close>

lemma js_includes_sublist: "js_includes s t = sublist t s"
  by (induction s) (simp_all add: sublist_Cons_right)

lemma find_target_no_match:
  "list_all plain_entry kws \<Longrightarrow> \<not> list_ex (entry_matches env t) kws \<Longrightarrow>
   find_target env (JStr t) kws = Some None"
proof (induction kws)
  case Nil
  then show ?case by simp
next
  case (Cons kw kws)
  then show ?case
    by (auto simp add: plain_entry_def entry_matches_def js_includes_sublist Let_def
        split: json.splits)
qed

lemma find_target_first_match:
  "list_all plain_entry front \<Longrightarrow> \<not> list_ex (entry_matches env t) front \<Longrightarrow> entry_matches env t e \<Longrightarrow>
   find_target env (JStr t) (front @ e # rest) = Some (Some e)"
proof (induction front)
  case Nil
  then show ?case
    by (cases e) (auto simp add: entry_matches_def js_includes_sublist Let_def split: json.splits)
next
  case (Cons kw front)
  then show ?case
    by (auto simp add: plain_entry_def entry_matches_def js_includes_sublist Let_def
        split: json.splits)
qed

lemma ranking_block_array:
  assumes "own_prop (own_prop (own_prop a ''primary_site_data'') ''ranking_keywords'') ''result'' = JArr kws"
    and "kws \<noteq> []"
    and "own_prop a ''target_keyword'' = JStr t"
  shows "ranking_keywords_insights env a [] =
     (case find_target env (JStr t) kws of
        None \<Rightarrow> Threw [ranks_count_line (length kws)]
      | Some None \<Rightarrow> Done [ranks_count_line (length kws), absence_line t]
      | Some (Some e) \<Rightarrow>
          (case ToString env (rank_or_unknown e) of
             None \<Rightarrow> Threw [ranks_count_line (length kws)]
           | Some r \<Rightarrow> Done [ranks_count_line (length kws), ranked_line t r]))"
proof -
  have g: "get_prop a ''primary_site_data'' = Inr (own_prop a ''primary_site_data'')"
    using assms(3) get_prop_defined [of a "''target_keyword''"] by simp
  show ?thesis
    using assms
    by (simp add: ranking_keywords_insights_def g opt_prop_eq Let_def ranks_count_line_def
        absence_line_def ranked_line_def split: option.splits)
qed

lemma ranking_block_errored:
  "own_prop (own_prop a ''primary_site_data'') ''ranking_keywords'' = JObj [(''error'', JStr m)] \<Longrightarrow>
   steps_lines (ranking_keywords_insights env a []) = []"
  by (simp add: ranking_keywords_insights_def opt_prop_eq get_prop_def)

subsection \<open>Ranking-keyword presence\<close>

lemma ranking_line_of_first_match:
  assumes "own_prop (own_prop (own_prop a ''primary_site_data'') ''ranking_keywords'') ''result''
       = JArr (front @ entry # rest)"
    and "own_prop a ''target_keyword'' = JStr t"
    and "list_all plain_entry front" and "\<not> list_ex (entry_matches env t) front"
    and "entry_matches env t entry"
    and "fallback_note \<notin> set (generateCompetitorInsights env a)"
  shows "\<exists>r. ToString env (rank_or_unknown entry) = Some r
         \<and> filter is_ranking_line (generateCompetitorInsights env a)
             = [ranks_count_line (length (front @ entry # rest)), ranked_line t r]"
proof -
  have found: "find_target env (JStr t) (front @ entry # rest) = Some (Some entry)"
    using assms(3-5) by (rule find_target_first_match)
  have block: "ranking_keywords_insights env a [] =
      (case ToString env (rank_or_unknown entry) of
         None \<Rightarrow> Threw [ranks_count_line (length (front @ entry # rest))]
       | Some r \<Rightarrow> Done [ranks_count_line (length (front @ entry # rest)), ranked_line t r])"
    using assms(1,2) by (subst ranking_block_array [of a "front @ entry # rest" t]) (simp_all add: found)
  from filter_by_kind [OF assms(6)]
  have fin: "ranking_keywords_insights env a [] =
      Done (filter is_ranking_line (generateCompetitorInsights env a))"
    by simp
  from block fin show ?thesis
    by (cases "ToString env (rank_or_unknown entry)") simp_all
qed

lemma absence_line_without_match:
  assumes "own_prop (own_prop (own_prop a ''primary_site_data'') ''ranking_keywords'') ''result'' = JArr kws"
    and "kws \<noteq> []"
    and "own_prop a ''target_keyword'' = JStr t"
    and "list_all plain_entry kws" and "\<not> list_ex (entry_matches env t) kws"
    and "fallback_note \<notin> set (generateCompetitorInsights env a)"
  shows "filter is_ranking_line (generateCompetitorInsights env a)
          = [ranks_count_line (length kws), absence_line t]"
proof -
  have none: "find_target env (JStr t) kws = Some None"
    using assms(4,5) by (rule find_target_no_match)
  have "ranking_keywords_insights env a [] = Done [ranks_count_line (length kws), absence_line t]"
    using assms(1-3) by (subst ranking_block_array [of a kws t]) (simp_all add: none)
  with filter_by_kind [OF assms(6)] show ?thesis
    by simp
qed

text \<open>
  C6, as stated, fails: the ranking-keywords list of this report was retrieved and is
  empty, so no entry matches the target keyword, and the insights hold no line about the
  ranking keywords at all, in particular no absence line.
\<close>

theorem ranking_keywords_empty_list_no_line:
  "own_prop (own_prop (own_prop equal_report ''primary_site_data'') ''ranking_keywords'') ''result'' = JArr []
   \<and> own_prop equal_report ''insights'' =
       JArr [JStr ''Primary site brand authority: 50 (Good)'',
             JStr (''Target keyword '' @ [CHR 0x22] @ ''seo tools'' @ [CHR 0x22] @ '' difficulty: 45% (Medium)''),
             JStr ''Target keyword monthly search volume: 900'']
   \<and> filter is_ranking_line (generateCompetitorInsights sample_env equal_report) = []"
  by code_simp

text \<open>
  C6, amended.  Let the primary ranking-keywords list of a report be an array, the target
  keyword a string, and insight generation run without an internal fault.  An entry
  matches when its keyword is a non-empty string that contains the target keyword, both
  put in lower case by the runtime (computed on ASCII strings, the runtime's Unicode
  lower-casing on the others).  If an entry matches and the entries before it are plain and do not
  match, the insights report the rank of that entry (its rank as text when it is a
  number other than zero, \<^verbatim>\<open>unknown\<close> when the rank is absent) after the line counting the
  keywords.  If the list is not empty, its entries are plain and none matches, the
  absence line is emitted after the counting line.  If the ranking-keywords call errored,
  no line of this rule is emitted, with or without a fault.
\<close>

theorem ranking_keyword_presence:
  "(own_prop (own_prop (own_prop a ''primary_site_data'') ''ranking_keywords'') ''result''
       = JArr (front @ entry # rest)
     \<and> own_prop a ''target_keyword'' = JStr t
     \<and> list_all plain_entry front \<and> \<not> list_ex (entry_matches env t) front \<and> entry_matches env t entry
     \<and> fallback_note \<notin> set (generateCompetitorInsights env a) \<longrightarrow>
      (\<exists>r. ToString env (rank_or_unknown entry) = Some r
         \<and> filter is_ranking_line (generateCompetitorInsights env a)
             = [ranks_count_line (length (front @ entry # rest)), ranked_line t r])
      \<and> (own_prop entry ''rank'' = JNum n \<and> n \<noteq> 0 \<longrightarrow>
           filter is_ranking_line (generateCompetitorInsights env a)
             = [ranks_count_line (length (front @ entry # rest)), ranked_line t (show_int n)])
      \<and> (own_prop entry ''rank'' = JUndefined \<longrightarrow>
           filter is_ranking_line (generateCompetitorInsights env a)
             = [ranks_count_line (length (front @ entry # rest)), ranked_line t ''unknown'']))
   \<and> (own_prop (own_prop (own_prop a ''primary_site_data'') ''ranking_keywords'') ''result'' = JArr kws
       \<and> kws \<noteq> []
       \<and> own_prop a ''target_keyword'' = JStr t
       \<and> list_all plain_entry kws \<and> \<not> list_ex (entry_matches env t) kws
       \<and> fallback_note \<notin> set (generateCompetitorInsights env a) \<longrightarrow>
        filter is_ranking_line (generateCompetitorInsights env a)
          = [ranks_count_line (length kws), absence_line t])
   \<and> (own_prop (own_prop a ''primary_site_data'') ''ranking_keywords'' = JObj [(''error'', JStr m)] \<longrightarrow>
        filter is_ranking_line (generateCompetitorInsights env a) = [])"
proof (intro conjI impI)
  assume h: "own_prop (own_prop (own_prop a ''primary_site_data'') ''ranking_keywords'') ''result''
       = JArr (front @ entry # rest)
     \<and> own_prop a ''target_keyword'' = JStr t
     \<and> list_all plain_entry front \<and> \<not> list_ex (entry_matches env t) front \<and> entry_matches env t entry
     \<and> fallback_note \<notin> set (generateCompetitorInsights env a)"
  then have ex: "\<exists>r. ToString env (rank_or_unknown entry) = Some r
         \<and> filter is_ranking_line (generateCompetitorInsights env a)
             = [ranks_count_line (length (front @ entry # rest)), ranked_line t r]"
    by (intro ranking_line_of_first_match) simp_all
  show "\<exists>r. ToString env (rank_or_unknown entry) = Some r
         \<and> filter is_ranking_line (generateCompetitorInsights env a)
             = [ranks_count_line (length (front @ entry # rest)), ranked_line t r]"
    by (rule ex)
  show "filter is_ranking_line (generateCompetitorInsights env a)
             = [ranks_count_line (length (front @ entry # rest)), ranked_line t (show_int n)]"
    if "own_prop entry ''rank'' = JNum n \<and> n \<noteq> 0"
  proof -
    from that have "ToString env (rank_or_unknown entry) = Some (show_int n)"
      by (simp add: rank_or_unknown_def)
    with ex show ?thesis
      by auto
  qed
  show "filter is_ranking_line (generateCompetitorInsights env a)
             = [ranks_count_line (length (front @ entry # rest)), ranked_line t ''unknown'']"
    if "own_prop entry ''rank'' = JUndefined"
  proof -
    from that have "ToString env (rank_or_unknown entry) = Some ''unknown''"
      by (simp add: rank_or_unknown_def)
    with ex show ?thesis
      by auto
  qed
next
  assume "own_prop (own_prop (own_prop a ''primary_site_data'') ''ranking_keywords'') ''result'' = JArr kws
       \<and> kws \<noteq> []
       \<and> own_prop a ''target_keyword'' = JStr t
       \<and> list_all plain_entry kws \<and> \<not> list_ex (entry_matches env t) kws
       \<and> fallback_note \<notin> set (generateCompetitorInsights env a)"
  then show "filter is_ranking_line (generateCompetitorInsights env a)
          = [ranks_count_line (length kws), absence_line t]"
    by (intro absence_line_without_match) simp_all
next
  assume "own_prop (own_prop a ''primary_site_data'') ''ranking_keywords'' = JObj [(''error'', JStr m)]"
  then show "filter is_ranking_line (generateCompetitorInsights env a) = []"
    by (intro suppressed_kind ranking_block_errored)
qed

text \<open>The target \<^verbatim>\<open>seo tools\<close> matches the entry \<^verbatim>\<open>Best SEO Tools 2024\<close> of rank 3; the
  target \<^verbatim>\<open>zebra\<close> does not; in the third report the calls of the primary site failed; in
  the fourth the accented target in lower case matches the first entry, in upper case and
  of rank 2, before the second entry, of rank 0.\<close>

theorem ranking_keyword_presence_witness:
  "own_prop (own_prop (own_prop matched_report ''primary_site_data'') ''ranking_keywords'') ''result''
     = JArr ([] @ JObj [(''keyword'', JStr ''Best SEO Tools 2024''), (''rank'', JNum 3)] # [])
   \<and> own_prop matched_report ''target_keyword'' = JStr ''seo tools''
   \<and> entry_matches sample_env ''seo tools'' (JObj [(''keyword'', JStr ''Best SEO Tools 2024''), (''rank'', JNum 3)])
   \<and> fallback_note \<notin> set (generateCompetitorInsights sample_env matched_report)
   \<and> filter is_ranking_line (generateCompetitorInsights sample_env matched_report)
       = [ranks_count_line 1, ranked_line ''seo tools'' ''3'']
   \<and> own_prop (own_prop (own_prop unmatched_report ''primary_site_data'') ''ranking_keywords'') ''result''
       = JArr [JObj [(''keyword'', JStr ''Best SEO Tools 2024''), (''rank'', JNum 3)]]
   \<and> own_prop unmatched_report ''target_keyword'' = JStr ''zebra''
   \<and> list_all plain_entry [JObj [(''keyword'', JStr ''Best SEO Tools 2024''), (''rank'', JNum 3)]]
   \<and> \<not> list_ex (entry_matches sample_env ''zebra'') [JObj [(''keyword'', JStr ''Best SEO Tools 2024''), (''rank'', JNum 3)]]
   \<and> fallback_note \<notin> set (generateCompetitorInsights sample_env unmatched_report)
   \<and> filter is_ranking_line (generateCompetitorInsights sample_env unmatched_report)
       = [ranks_count_line 1, absence_line ''zebra'']
   \<and> own_prop (own_prop errored_report ''primary_site_data'') ''ranking_keywords''
       = JObj [(''error'', JStr ''Network Error: timeout - No response data'')]
   \<and> filter is_ranking_line (generateCompetitorInsights sample_env errored_report) = []
   \<and> own_prop (own_prop (own_prop accent_report ''primary_site_data'') ''ranking_keywords'') ''result''
       = JArr ([] @ JObj [(''keyword'', JStr upper_ecole), (''rank'', JNum 2)]
                # [JObj [(''keyword'', JStr (lower_ecole @ '' x'')), (''rank'', JNum 0)]])
   \<and> own_prop accent_report ''target_keyword'' = JStr lower_ecole
   \<and> entry_matches sample_env lower_ecole (JObj [(''keyword'', JStr upper_ecole), (''rank'', JNum 2)])
   \<and> fallback_note \<notin> set (generateCompetitorInsights sample_env accent_report)
   \<and> filter is_ranking_line (generateCompetitorInsights sample_env accent_report)
       = [ranks_count_line 2, ranked_line lower_ecole ''2'']"
proof -
  let ?e = "JObj [(''keyword'', JStr ''Best SEO Tools 2024''), (''rank'', JNum 3)]"
  have m1: "own_prop (own_prop (own_prop matched_report ''primary_site_data'') ''ranking_keywords'') ''result''
     = JArr ([] @ ?e # [])"
    by code_simp
  have m2: "own_prop matched_report ''target_keyword'' = JStr ''seo tools''"
    by code_simp
  have m3: "entry_matches sample_env ''seo tools'' ?e"
    by code_simp
  have m4: "fallback_note \<notin> set (generateCompetitorInsights sample_env matched_report)"
    by code_simp
  have u1: "own_prop (own_prop (own_prop unmatched_report ''primary_site_data'') ''ranking_keywords'') ''result''
       = JArr [?e]"
    by code_simp
  have u2: "own_prop unmatched_report ''target_keyword'' = JStr ''zebra''"
    by code_simp
  have u3: "list_all plain_entry [?e]"
    by code_simp
  have u4: "\<not> list_ex (entry_matches sample_env ''zebra'') [?e]"
    by code_simp
  have u5: "fallback_note \<notin> set (generateCompetitorInsights sample_env unmatched_report)"
    by code_simp
  have e1: "own_prop (own_prop errored_report ''primary_site_data'') ''ranking_keywords''
       = JObj [(''error'', JStr ''Network Error: timeout - No response data'')]"
    by code_simp
  have three: "show_int 3 = ''3''"
    by code_simp
  from ranking_keyword_presence [where a = matched_report and front = "[]" and entry = ?e
      and rest = "[]" and t = "''seo tools''" and env = sample_env and n = 3 and kws = "[]" and m = "[]"]
    m1 m2 m3 m4 three
  have M: "filter is_ranking_line (generateCompetitorInsights sample_env matched_report)
       = [ranks_count_line 1, ranked_line ''seo tools'' ''3'']"
    by simp
  from ranking_keyword_presence [where a = unmatched_report and front = "[]" and entry = ?e
      and rest = "[]" and t = "''zebra''" and env = sample_env and n = 3 and kws = "[?e]" and m = "[]"]
    u1 u2 u3 u4 u5
  have U: "filter is_ranking_line (generateCompetitorInsights sample_env unmatched_report)
       = [ranks_count_line 1, absence_line ''zebra'']"
    by simp
  from ranking_keyword_presence [where a = errored_report and front = "[]" and entry = ?e
      and rest = "[]" and t = "''seo tools''" and env = sample_env and n = 3 and kws = "[]"
      and m = "''Network Error: timeout - No response data''"]
    e1
  have E: "filter is_ranking_line (generateCompetitorInsights sample_env errored_report) = []"
    by simp
  let ?a1 = "JObj [(''keyword'', JStr upper_ecole), (''rank'', JNum 2)]"
  let ?a2 = "JObj [(''keyword'', JStr (lower_ecole @ '' x'')), (''rank'', JNum 0)]"
  have a1: "own_prop (own_prop (own_prop accent_report ''primary_site_data'') ''ranking_keywords'') ''result''
       = JArr ([] @ ?a1 # [?a2])"
    by code_simp
  have a2: "own_prop accent_report ''target_keyword'' = JStr lower_ecole"
    by code_simp
  have a3: "entry_matches sample_env lower_ecole ?a1"
    by code_simp
  have a4: "fallback_note \<notin> set (generateCompetitorInsights sample_env accent_report)"
    by code_simp
  have two: "show_int 2 = ''2''"
    by code_simp
  from ranking_keyword_presence [where a = accent_report and front = "[]" and entry = ?a1
      and rest = "[?a2]" and t = lower_ecole and env = sample_env and n = 2 and kws = "[]" and m = "[]"]
    a1 a2 a3 a4 two
  have A: "filter is_ranking_line (generateCompetitorInsights sample_env accent_report)
       = [ranks_count_line 2, ranked_line lower_ecole ''2'']"
    by (simp add: numeral_2_eq_2)
  from m1 m2 m3 m4 M u1 u2 u3 u4 u5 U e1 E a1 a2 a3 a4 A show ?thesis
    by (intro conjI)
qed


subsection \<open>Competitor comparison\<close>

subsection \<open>The comparison block\<close>

lemma numeric_truthy: "numeric_or_absent v \<Longrightarrow> truthy v \<Longrightarrow> \<exists>n. v = JNum n \<and> n \<noteq> 0"
  by (cases v) simp_all

lemma exceeds_falsy: "\<not> truthy v \<Longrightarrow> \<not> exceeds v w \<and> \<not> exceeds w v"
  by (cases v; cases w) simp_all

lemma count_stronger_Cons:
  "count_stronger p (x # xs) =
     (if exceeds (competitor_brand_authority x) p then 1 else 0) + count_stronger p xs"
  by (simp add: count_stronger_def)

lemma count_weaker_Cons:
  "count_weaker p (x # xs) =
     (if exceeds p (competitor_brand_authority x) then 1 else 0) + count_weaker p xs"
  by (simp add: count_weaker_def)

lemma count_competitors_counts:
  "numeric_or_absent p \<Longrightarrow> list_all comparable_competitor competitors \<Longrightarrow>
   count_competitors env p competitors (s, w) =
     Some (s + count_stronger p competitors, w + count_weaker p competitors)"
proof (induction competitors arbitrary: s w)
  case Nil
  then show ?case
    by (simp add: count_stronger_def count_weaker_def)
next
  case (Cons x xs)
  from Cons.prems have cx: "comparable_competitor x" and xs: "list_all comparable_competitor xs"
    by simp_all
  from cx have x: "\<not> nullish x" "numeric_or_absent (competitor_brand_authority x)"
    by (simp_all add: comparable_competitor_def)
  have g: "get_prop x ''brand_authority'' = Inr (own_prop x ''brand_authority'')"
    using x(1) by (simp add: get_prop_def)
  have b: "opt_prop (opt_prop (own_prop x ''brand_authority'') ''result'') ''brand_authority''
      = competitor_brand_authority x"
    by (simp add: competitor_brand_authority_def)
  note IH = Cons.IH [OF Cons.prems(1) xs]
  show ?case
  proof (cases "truthy p \<and> truthy (competitor_brand_authority x)")
    case True
    with numeric_truthy [OF Cons.prems(1)] numeric_truthy [OF x(2)]
    obtain m n where mn: "p = JNum m" "m \<noteq> 0" "competitor_brand_authority x = JNum n" "n \<noteq> 0"
      by blast
    then have t: "truthy p" "truthy (competitor_brand_authority x)"
      and gt: "js_gt env (competitor_brand_authority x) p = Some (m < n)"
      and lt: "js_lt env (competitor_brand_authority x) p = Some (n < m)"
      and e1: "exceeds (competitor_brand_authority x) p = (m < n)"
      and e2: "exceeds p (competitor_brand_authority x) = (n < m)"
      by simp_all
    show ?thesis
      by (simp add: g b t gt lt e1 e2 IH count_stronger_Cons count_weaker_Cons)
  next
    case False
    then have "\<not> exceeds (competitor_brand_authority x) p \<and> \<not> exceeds p (competitor_brand_authority x)"
      using exceeds_falsy by blast
    with False show ?thesis
      by (auto simp add: g b IH count_stronger_Cons count_weaker_Cons Let_def)
  qed
qed

lemma comparison_block_counts:
  assumes "own_prop a ''competitor_data'' = JArr competitors"
    and "competitors \<noteq> []"
    and "list_all comparable_competitor competitors"
    and "numeric_or_absent (primary_brand_authority a)"
  shows "competitor_comparison_insights env a [] =
     Done (if 0 < count_stronger (primary_brand_authority a) competitors
              \<or> 0 < count_weaker (primary_brand_authority a) competitors
           then [landscape_line (count_stronger (primary_brand_authority a) competitors)
                   (count_weaker (primary_brand_authority a) competitors)]
           else [])"
proof -
  have g: "get_prop a ''competitor_data'' = Inr (JArr competitors)"
    using assms(1) get_prop_defined [of a "''competitor_data''" "''competitor_data''"] by simp
  from assms(2) have len: "0 < length competitors"
    by simp
  show ?thesis
    using len
    by (simp add: competitor_comparison_insights_def g
        count_competitors_counts [OF assms(4) assms(3), of env 0 0])
qed

lemma count_positive:
  "(0 < count_stronger p competitors \<or> 0 < count_weaker p competitors) =
     (\<exists>competitor \<in> set competitors.
        exceeds (competitor_brand_authority competitor) p \<or> exceeds p (competitor_brand_authority competitor))"
  by (auto simp add: count_stronger_def count_weaker_def filter_empty_conv)

text \<open>
  C7, as stated, fails: the primary site and the only competitor of this report both have
  the brand authority 50, so a comparison was possible, and the insights have no
  competitor-comparison line.
\<close>

theorem equal_brand_authority_no_comparison_line:
  "primary_brand_authority equal_report = JNum 50
   \<and> map competitor_brand_authority (elements (own_prop equal_report ''competitor_data'')) = [JNum 50]
   \<and> known (JNum 50)
   \<and> fallback_note \<notin> set (generateCompetitorInsights sample_env equal_report)
   \<and> own_prop equal_report ''insights'' = JArr (map JStr (generateCompetitorInsights sample_env equal_report))
   \<and> filter is_landscape_line (generateCompetitorInsights sample_env equal_report) = []"
  by code_simp

text \<open>
  C7, amended.  Let the competitor list of a report be a non-empty array whose entries
  have a numeric or absent brand authority, as has the primary site, and let insight
  generation run without an internal fault.  The comparison counts the competitors whose
  known brand authority (a number other than zero) is above, and those whose known brand
  authority is below, the known brand authority of the primary site; the comparison line
  is emitted, with the two counts, if and only if one of the counts is positive, that is,
  if and only if some competitor's known brand authority differs from the primary
  site's.
\<close>

theorem competitor_comparison_counts:
  "own_prop a ''competitor_data'' = JArr competitors \<and> competitors \<noteq> []
   \<and> list_all comparable_competitor competitors
   \<and> numeric_or_absent (primary_brand_authority a)
   \<and> fallback_note \<notin> set (generateCompetitorInsights env a) \<longrightarrow>
     filter is_landscape_line (generateCompetitorInsights env a) =
       (if 0 < count_stronger (primary_brand_authority a) competitors
           \<or> 0 < count_weaker (primary_brand_authority a) competitors
        then [landscape_line (count_stronger (primary_brand_authority a) competitors)
                (count_weaker (primary_brand_authority a) competitors)]
        else [])
     \<and> (filter is_landscape_line (generateCompetitorInsights env a) \<noteq> []) =
         (\<exists>competitor \<in> set competitors.
            exceeds (competitor_brand_authority competitor) (primary_brand_authority a)
            \<or> exceeds (primary_brand_authority a) (competitor_brand_authority competitor))"
proof
  assume h: "own_prop a ''competitor_data'' = JArr competitors \<and> competitors \<noteq> []
   \<and> list_all comparable_competitor competitors
   \<and> numeric_or_absent (primary_brand_authority a)
   \<and> fallback_note \<notin> set (generateCompetitorInsights env a)"
  then have "competitor_comparison_insights env a [] =
     Done (if 0 < count_stronger (primary_brand_authority a) competitors
              \<or> 0 < count_weaker (primary_brand_authority a) competitors
           then [landscape_line (count_stronger (primary_brand_authority a) competitors)
                   (count_weaker (primary_brand_authority a) competitors)]
           else [])"
    by (intro comparison_block_counts) simp_all
  with filter_by_kind [of env a] h
  have eq: "filter is_landscape_line (generateCompetitorInsights env a) =
       (if 0 < count_stronger (primary_brand_authority a) competitors
           \<or> 0 < count_weaker (primary_brand_authority a) competitors
        then [landscape_line (count_stronger (primary_brand_authority a) competitors)
                (count_weaker (primary_brand_authority a) competitors)]
        else [])"
    by simp
  have "(filter is_landscape_line (generateCompetitorInsights env a) \<noteq> []) =
      (0 < count_stronger (primary_brand_authority a) competitors
       \<or> 0 < count_weaker (primary_brand_authority a) competitors)"
    by (simp add: eq)
  with eq count_positive [of "primary_brand_authority a" competitors]
  show "filter is_landscape_line (generateCompetitorInsights env a) =
       (if 0 < count_stronger (primary_brand_authority a) competitors
           \<or> 0 < count_weaker (primary_brand_authority a) competitors
        then [landscape_line (count_stronger (primary_brand_authority a) competitors)
                (count_weaker (primary_brand_authority a) competitors)]
        else [])
     \<and> (filter is_landscape_line (generateCompetitorInsights env a) \<noteq> []) =
         (\<exists>competitor \<in> set competitors.
            exceeds (competitor_brand_authority competitor) (primary_brand_authority a)
            \<or> exceeds (primary_brand_authority a) (competitor_brand_authority competitor))"
    by simp
qed

text \<open>The competitors of this report have the brand authorities 80, 50 and 20, the
  primary site 50.\<close>

theorem competitor_comparison_counts_witness:
  "own_prop matched_report ''competitor_data'' = JArr (elements (own_prop matched_report ''competitor_data''))
   \<and> elements (own_prop matched_report ''competitor_data'') \<noteq> []
   \<and> list_all comparable_competitor (elements (own_prop matched_report ''competitor_data''))
   \<and> numeric_or_absent (primary_brand_authority matched_report)
   \<and> fallback_note \<notin> set (generateCompetitorInsights sample_env matched_report)
   \<and> map competitor_brand_authority (elements (own_prop matched_report ''competitor_data''))
       = [JNum 80, JNum 50, JNum 20]
   \<and> primary_brand_authority matched_report = JNum 50
   \<and> filter is_landscape_line (generateCompetitorInsights sample_env matched_report)
       = [''Competitive landscape: 1 competitors have higher brand authority, 1 have lower'']"
proof -
  let ?cs = "elements (own_prop matched_report ''competitor_data'')"
  have 1: "own_prop matched_report ''competitor_data'' = JArr ?cs"
    by code_simp
  have 2: "?cs \<noteq> []"
    by code_simp
  have 3: "list_all comparable_competitor ?cs"
    by code_simp
  have 4: "numeric_or_absent (primary_brand_authority matched_report)"
    by code_simp
  have 5: "fallback_note \<notin> set (generateCompetitorInsights sample_env matched_report)"
    by code_simp
  have 6: "map competitor_brand_authority ?cs = [JNum 80, JNum 50, JNum 20]"
    by code_simp
  have 7: "primary_brand_authority matched_report = JNum 50"
    by code_simp
  have 8: "count_stronger (primary_brand_authority matched_report) ?cs = 1"
    by code_simp
  have 9: "count_weaker (primary_brand_authority matched_report) ?cs = 1"
    by code_simp
  have 10: "landscape_line 1 1 = ''Competitive landscape: 1 competitors have higher brand authority, 1 have lower''"
    by code_simp
  from competitor_comparison_counts [of matched_report ?cs sample_env] 1 2 3 4 5 8 9 10
  have "filter is_landscape_line (generateCompetitorInsights sample_env matched_report)
       = [''Competitive landscape: 1 competitors have higher brand authority, 1 have lower'']"
    by simp
  with 1 2 3 4 5 6 7 show ?thesis
    by (intro conjI)
qed

subsection \<open>Zero values\<close>

lemma brand_line_suppressed:
  "own_prop (own_prop (own_prop (own_prop a ''primary_site_data'') ''brand_authority'') ''result'')
      ''brand_authority'' = JNum 0 \<Longrightarrow>
   steps_lines (primary_site_insights env a []) = []"
  by (simp add: primary_site_insights_def Let_def get_prop_def)

lemma difficulty_line_suppressed:
  "own_prop (own_prop (own_prop (own_prop a ''keyword_analysis'') ''difficulty'') ''result'')
      ''difficulty'' = JNum 0 \<Longrightarrow>
   steps_lines (keyword_difficulty_insights env a []) = []"
  by (simp add: keyword_difficulty_insights_def Let_def get_prop_def)

lemma volume_line_suppressed:
  "own_prop (own_prop (own_prop (own_prop a ''keyword_analysis'') ''volume'') ''result'')
      ''volume'' = JNum 0 \<Longrightarrow>
   steps_lines (keyword_volume_insights env a []) = []"
  by (simp add: keyword_volume_insights_def Let_def get_prop_def)

text \<open>
  C9: a zero value counts as absent.  A report whose primary brand authority is 0 gets no
  brand-authority line, one whose keyword difficulty is 0 no difficulty line, one whose
  volume is 0 no volume line.  The position reported for an entry of rank 0 is
  \<^verbatim>\<open>unknown\<close>: when the first matching entry of the ranking-keywords list (the first whose
  keyword contains the target, both put in lower case by the runtime) has rank 0 and
  insight generation runs without an internal fault, the ranking line says so.
\<close>

theorem zero_values_treated_as_absent:
  "(own_prop (own_prop (own_prop (own_prop a ''primary_site_data'') ''brand_authority'') ''result'')
       ''brand_authority'' = JNum 0 \<longrightarrow>
      filter is_brand_line (generateCompetitorInsights env a) = [])
   \<and> (own_prop (own_prop (own_prop (own_prop a ''keyword_analysis'') ''difficulty'') ''result'')
         ''difficulty'' = JNum 0 \<longrightarrow>
        filter is_difficulty_line (generateCompetitorInsights env a) = [])
   \<and> (own_prop (own_prop (own_prop (own_prop a ''keyword_analysis'') ''volume'') ''result'')
         ''volume'' = JNum 0 \<longrightarrow>
        filter is_volume_line (generateCompetitorInsights env a) = [])
   \<and> (own_prop (own_prop (own_prop a ''primary_site_data'') ''ranking_keywords'') ''result''
         = JArr (front @ entry # rest)
       \<and> own_prop a ''target_keyword'' = JStr t
       \<and> list_all plain_entry front \<and> \<not> list_ex (entry_matches env t) front \<and> entry_matches env t entry
       \<and> own_prop entry ''rank'' = JNum 0
       \<and> fallback_note \<notin> set (generateCompetitorInsights env a) \<longrightarrow>
        filter is_ranking_line (generateCompetitorInsights env a)
          = [ranks_count_line (length (front @ entry # rest)), ranked_line t ''unknown''])
   \<and> (own_prop entry ''rank'' = JNum 0 \<longrightarrow> ToString env (rank_or_unknown entry) = Some ''unknown'')"
proof (intro conjI impI)
  assume "own_prop (own_prop (own_prop (own_prop a ''primary_site_data'') ''brand_authority'') ''result'')
       ''brand_authority'' = JNum 0"
  then show "filter is_brand_line (generateCompetitorInsights env a) = []"
    by (intro suppressed_kind brand_line_suppressed)
next
  assume "own_prop (own_prop (own_prop (own_prop a ''keyword_analysis'') ''difficulty'') ''result'')
         ''difficulty'' = JNum 0"
  then show "filter is_difficulty_line (generateCompetitorInsights env a) = []"
    by (intro suppressed_kind difficulty_line_suppressed)
next
  assume "own_prop (own_prop (own_prop (own_prop a ''keyword_analysis'') ''volume'') ''result'')
         ''volume'' = JNum 0"
  then show "filter is_volume_line (generateCompetitorInsights env a) = []"
    by (intro suppressed_kind volume_line_suppressed)
next
  assume h: "own_prop (own_prop (own_prop a ''primary_site_data'') ''ranking_keywords'') ''result''
         = JArr (front @ entry # rest)
       \<and> own_prop a ''target_keyword'' = JStr t
       \<and> list_all plain_entry front \<and> \<not> list_ex (entry_matches env t) front \<and> entry_matches env t entry
       \<and> own_prop entry ''rank'' = JNum 0
       \<and> fallback_note \<notin> set (generateCompetitorInsights env a)"
  then have found: "find_target env (JStr t) (front @ entry # rest) = Some (Some entry)"
    by (intro find_target_first_match) simp_all
  from h have unknown: "ToString env (rank_or_unknown entry) = Some ''unknown''"
    by (simp add: rank_or_unknown_def)
  from h have "ranking_keywords_insights env a [] =
      Done [ranks_count_line (length (front @ entry # rest)), ranked_line t ''unknown'']"
    by (subst ranking_block_array [of a "front @ entry # rest" t]) (simp_all add: found unknown)
  with filter_by_kind [of env a] h
  show "filter is_ranking_line (generateCompetitorInsights env a)
          = [ranks_count_line (length (front @ entry # rest)), ranked_line t ''unknown'']"
    by simp
next
  assume "own_prop entry ''rank'' = JNum 0"
  then show "ToString env (rank_or_unknown entry) = Some ''unknown''"
    by (simp add: rank_or_unknown_def)
qed

lemma zero_report_insights:
  "generateCompetitorInsights sample_env zero_report =
     [ranks_count_line 1, ranked_line ''seo tools'' ''unknown'']"
  by code_simp

text \<open>A report whose brand authority, difficulty, volume and rank are all 0.\<close>

theorem zero_values_treated_as_absent_witness:
  "own_prop (own_prop (own_prop (own_prop zero_report ''primary_site_data'') ''brand_authority'') ''result'')
       ''brand_authority'' = JNum 0
   \<and> own_prop (own_prop (own_prop (own_prop zero_report ''keyword_analysis'') ''difficulty'') ''result'')
       ''difficulty'' = JNum 0
   \<and> own_prop (own_prop (own_prop (own_prop zero_report ''keyword_analysis'') ''volume'') ''result'')
       ''volume'' = JNum 0
   \<and> own_prop (own_prop (own_prop zero_report ''primary_site_data'') ''ranking_keywords'') ''result''
       = JArr ([] @ JObj [(''keyword'', JStr ''Best SEO Tools 2024''), (''rank'', JNum 0)] # [])
   \<and> own_prop zero_report ''target_keyword'' = JStr ''seo tools''
   \<and> entry_matches sample_env ''seo tools'' (JObj [(''keyword'', JStr ''Best SEO Tools 2024''), (''rank'', JNum 0)])
   \<and> fallback_note \<notin> set (generateCompetitorInsights sample_env zero_report)
   \<and> filter is_brand_line (generateCompetitorInsights sample_env zero_report) = []
   \<and> filter is_difficulty_line (generateCompetitorInsights sample_env zero_report) = []
   \<and> filter is_volume_line (generateCompetitorInsights sample_env zero_report) = []
   \<and> filter is_ranking_line (generateCompetitorInsights sample_env zero_report)
       = [ranks_count_line 1, ranked_line ''seo tools'' ''unknown'']"
proof -
  let ?e = "JObj [(''keyword'', JStr ''Best SEO Tools 2024''), (''rank'', JNum 0)]"
  have 1: "own_prop (own_prop (own_prop (own_prop zero_report ''primary_site_data'') ''brand_authority'') ''result'')
       ''brand_authority'' = JNum 0"
    by code_simp
  have 2: "own_prop (own_prop (own_prop (own_prop zero_report ''keyword_analysis'') ''difficulty'') ''result'')
       ''difficulty'' = JNum 0"
    by code_simp
  have 3: "own_prop (own_prop (own_prop (own_prop zero_report ''keyword_analysis'') ''volume'') ''result'')
       ''volume'' = JNum 0"
    by code_simp
  have 4: "own_prop (own_prop (own_prop zero_report ''primary_site_data'') ''ranking_keywords'') ''result''
       = JArr ([] @ ?e # [])"
    by code_simp
  have 5: "own_prop zero_report ''target_keyword'' = JStr ''seo tools''"
    by code_simp
  have 6: "entry_matches sample_env ''seo tools'' ?e"
    by code_simp
  have 7: "fallback_note \<notin> set (generateCompetitorInsights sample_env zero_report)"
    by (simp add: zero_report_insights fallback_note_def ranks_count_line_def ranked_line_def)
  from zero_values_treated_as_absent [of zero_report sample_env "[]" ?e "[]" "''seo tools''"]
    1 2 3 4 5 6 7
  show ?thesis
    by simp
qed

end
